theory Spec2Isabelle
  imports Main "HOL-Library.AList"
begin

section \<open>Python values, strings and dictionaries\<close>

text \<open>
  A Python \<open>str\<close> is a sequence of Unicode code points. Page text carries glyphs outside
  ASCII (the colon sign U+20A1, accented letters, the right guillemet U+00BB), so text is
  modelled as a list of code points; \<open>u\<close> embeds an ASCII literal of the source.
  Dictionary keys, CSS selectors, encodings and file names are literals of the source
  within Latin-1 and stay \<open>string\<close>.
\<close>

type_synonym ustr = "nat list"

definition u :: "string \<Rightarrow> ustr" where
  "u s = map of_char s"

datatype pyval = Str ustr | Bool bool | NoneV

text \<open>Truth value of a Python object, as \<open>if x:\<close> and \<open>x or y\<close> test it.\<close>

fun truthy :: "pyval \<Rightarrow> bool" where
  "truthy (Str s) = (s \<noteq> [])"
| "truthy (Bool b) = b"
| "truthy NoneV = False"

text \<open>
  A \<open>dict\<close> keeps its keys in insertion order; assigning to a present key replaces the
  value in place, assigning to a new key appends it. That is \<open>AList.update\<close>.
\<close>

type_synonym pydict = "(string \<times> pyval) list"

definition setitem :: "string \<Rightarrow> pyval \<Rightarrow> pydict \<Rightarrow> pydict" where
  "setitem k v d = AList.update k v d"

definition keys :: "pydict \<Rightarrow> string list" where
  "keys d = map fst d"

text \<open>\<open>d.get(k, default)\<close>.\<close>

definition get :: "pydict \<Rightarrow> string \<Rightarrow> pyval \<Rightarrow> pyval" where
  "get d k dflt = (case map_of d k of Some v \<Rightarrow> v | None \<Rightarrow> dflt)"

text \<open>
  \<open>d[k]\<close> as an expression. Every such read in the modelled functions follows an
  assignment to the same key of the same dictionary, so the \<open>KeyError\<close> branch is
  never taken there; the model reads \<open>NoneV\<close> for an absent key.
\<close>

definition item :: "pydict \<Rightarrow> string \<Rightarrow> pyval" where
  "item d k = get d k NoneV"

text \<open>The string a text-valued entry holds (\<open>''\<close> for anything that is not a string).\<close>

fun text_of :: "pyval \<Rightarrow> ustr" where
  "text_of (Str s) = s"
| "text_of _ = []"

text \<open>\<open>{key: "" for key in names}\<close>.\<close>

definition empty_record :: "string list \<Rightarrow> pydict" where
  "empty_record names = fold (\<lambda>k d. setitem k (Str []) d) names []"

datatype py_error = ValueError | OSError | OtherError

section \<open>CSV output\<close>

text \<open>
  \<open>csv.DictWriter\<close> and the file object are library code. A written file is modelled by
  what the source decides: the \<open>encoding\<close> passed to \<open>open\<close> and the rows handed to the
  writer, each a list of cells, the header row first. The character-level quoting of
  cells is the library's and is not modelled.
\<close>

record csv_file =
  encoding :: string
  rows :: "ustr list list"

record filesys =
  files :: "string \<rightharpoonup> csv_file"
  unwritable :: "string \<Rightarrow> bool"

text \<open>The cell the writer emits for a value: \<open>None\<close> as the empty cell, else \<open>str(v)\<close>.\<close>

fun str_of :: "pyval \<Rightarrow> ustr" where
  "str_of (Str s) = s"
| "str_of (Bool b) = (if b then u ''True'' else u ''False'')"
| "str_of NoneV = []"

text \<open>
  \<open>DictWriter._dict_to_list\<close> with the defaults \<open>restval=''\<close> and
  \<open>extrasaction='raise'\<close>: a key outside \<open>fieldnames\<close> raises \<open>ValueError\<close>.
\<close>

definition dict_to_list :: "string list \<Rightarrow> pydict \<Rightarrow> py_error + ustr list" where
  "dict_to_list fieldnames rowdict =
     (if list_ex (\<lambda>k. k \<notin> set fieldnames) (keys rowdict) then Inl ValueError
      else Inr (map (\<lambda>k. str_of (get rowdict k (Str []))) fieldnames))"

text \<open>\<open>writerows\<close>: rows are written one by one; a raising row leaves the earlier ones written.\<close>

fun writerows :: "string list \<Rightarrow> pydict list \<Rightarrow> ustr list list \<Rightarrow> ustr list list \<times> py_error option" where
  "writerows fieldnames [] written = (written, None)"
| "writerows fieldnames (r # rs) written =
     (case dict_to_list fieldnames r of
        Inl e \<Rightarrow> (written, Some e)
      | Inr cells \<Rightarrow> writerows fieldnames rs (written @ [cells]))"

text \<open>
  The block shared by every writer of the repository:
  \<^verbatim>\<open>
  with open(filename, "w", newline="", encoding=enc) as f:
      writer = csv.DictWriter(f, fieldnames=fieldnames)
      writer.writeheader()
      writer.writerows(jobs)
  \<close>
  \<open>open\<close> raises \<open>OSError\<close> on a path that cannot be written; otherwise the file is created
  or truncated.
\<close>

definition write_csv ::
  "filesys \<Rightarrow> string \<Rightarrow> string \<Rightarrow> string list \<Rightarrow> pydict list \<Rightarrow> filesys \<times> py_error option" where
  "write_csv fs filename enc fieldnames jobs =
     (if unwritable fs filename then (fs, Some OSError)
      else (case writerows fieldnames jobs [map u fieldnames] of
              (written, err) \<Rightarrow>
                (fs\<lparr>files := (files fs)(filename \<mapsto> \<lparr>encoding = enc, rows = written\<rparr>)\<rparr>, err)))"

subsection \<open>The five \<open>save_to_csv\<close> of the repository\<close>

definition quickview_fieldnames :: "string list" where
  "quickview_fieldnames =
     [''title'', ''company'', ''location'', ''description'', ''salary'', ''posting_date'', ''url'']"

text \<open>\<open>ElempleoQuickViewScraper.save_to_csv\<close> (elempleo\_scraper.py).\<close>

definition save_to_csv_quickview :: "filesys \<Rightarrow> pydict list \<Rightarrow> string \<Rightarrow> filesys \<times> string option" where
  "save_to_csv_quickview fs jobs filename =
     (if jobs = [] then (fs, None)
      else (case write_csv fs filename ''utf-8-sig'' quickview_fieldnames jobs of
              (fs', None) \<Rightarrow> (fs', Some filename)
            | (fs', Some e) \<Rightarrow> (fs', None)))"

text \<open>
  \<open>SimpleElempleoScraper.save_to_csv\<close> (elempleo\_scraper\_simple.py): the same seven
  fields, \<open>encoding='utf-8'\<close>, exceptions logged, nothing returned.
\<close>

definition save_to_csv_simple :: "filesys \<Rightarrow> pydict list \<Rightarrow> string \<Rightarrow> filesys \<times> string option" where
  "save_to_csv_simple fs jobs filename =
     (if jobs = [] then (fs, None)
      else (case write_csv fs filename ''utf-8'' quickview_fieldnames jobs of
              (fs', err) \<Rightarrow> (fs', None)))"

definition FIELDS :: "string list" where
  "FIELDS =
     [''source_site'', ''title'', ''company'', ''description'', ''category'', ''type'', ''tag'',
      ''featured'', ''featured_image'', ''filled'', ''urgent'',
      ''expiry_date'', ''application_deadline_date'', ''posting_date'',
      ''location'', ''address'', ''map_location'',
      ''salary'', ''salary_type'', ''max_salary'',
      ''experience'', ''career_level'', ''qualification'', ''gender'',
      ''apply_type'', ''apply_url'', ''apply_email'',
      ''video_url'', ''photos'', ''url'']"

text \<open>\<open>JobScraper.save_to_csv\<close> (combined\_scraper.py).\<close>

definition save_to_csv_combined :: "filesys \<Rightarrow> pydict list \<Rightarrow> string \<Rightarrow> filesys \<times> string option" where
  "save_to_csv_combined fs jobs filename =
     (if jobs = [] then (fs, None)
      else (case write_csv fs filename ''utf-8-sig'' FIELDS jobs of
              (fs', None) \<Rightarrow> (fs', Some filename)
            | (fs', Some e) \<Rightarrow> (fs', None)))"

definition CSV_FIELDS :: "string list" where
  "CSV_FIELDS =
     [''featured_image'', ''featured'', ''filled'', ''urgent'',
      ''category'', ''type'', ''tag'', ''expiry_date'', ''gender'',
      ''apply_type'', ''apply_url'', ''apply_email'',
      ''salary_type'', ''max_salary'',
      ''experience'', ''career_level'', ''qualification'', ''video_url'', ''photos'',
      ''application_deadline_date'', ''address'', ''map_location'']"

text \<open>\<open>for f in CSV_FIELDS: if f not in j: j[f] = ""\<close>.\<close>

definition ensure_fields :: "string list \<Rightarrow> pydict \<Rightarrow> pydict" where
  "ensure_fields names j = fold (\<lambda>f d. if f \<in> set (keys d) then d else setitem f (Str []) d) names j"

text \<open>
  \<open>save_to_csv\<close> of elempleo\_full\_scraper.py. \<open>stamp\<close> is the formatted
  \<open>datetime.now()\<close>. There is no \<open>try\<close>: an exception of the writer leaves the
  function (second component); the function itself returns nothing.
\<close>

definition save_to_csv_full ::
  "string \<Rightarrow> filesys \<Rightarrow> pydict list \<Rightarrow> string option \<Rightarrow> filesys \<times> py_error option" where
  "save_to_csv_full stamp fs jobs filename =
     (if jobs = [] then (fs, None)
      else let fname = (case filename of
                          Some f \<Rightarrow> if f \<noteq> [] then f else ''elempleo_full_'' @ stamp @ ''.csv''
                        | None \<Rightarrow> ''elempleo_full_'' @ stamp @ ''.csv'')
           in write_csv fs fname ''utf-8-sig'' CSV_FIELDS (map (ensure_fields CSV_FIELDS) jobs))"

text \<open>\<open>save_to_csv\<close> of scrape.py: the header is the key list of the first record.\<close>

definition save_to_csv_api :: "string \<Rightarrow> filesys \<Rightarrow> pydict list \<Rightarrow> filesys \<times> py_error option" where
  "save_to_csv_api stamp fs jobs =
     (case jobs of
        [] \<Rightarrow> (fs, None)
      | j # _ \<Rightarrow> write_csv fs (''elempleo_jobs_api_'' @ stamp @ ''.csv'') ''utf-8-sig'' (keys j) jobs)"

text \<open>The cells of one record under a header: what \<open>_dict_to_list\<close> returns when it does not raise.\<close>

definition row_cells :: "string list \<Rightarrow> pydict \<Rightarrow> ustr list" where
  "row_cells fieldnames rowdict = map (\<lambda>k. str_of (get rowdict k (Str []))) fieldnames"

subsection \<open>Reading a written file back\<close>

text \<open>
  \<open>csv.DictReader\<close>, at the level of cells: the first row is the header, and every
  further row is paired with it, cell by cell.
\<close>

definition read_rows :: "csv_file \<Rightarrow> (ustr \<times> ustr) list list" where
  "read_rows f = (case rows f of [] \<Rightarrow> [] | header # body_rows \<Rightarrow> map (zip header) body_rows)"

text \<open>
  A job record over a schema, as the data model has it: exactly the schema's keys, and
  a string under each.
\<close>

fun is_str :: "pyval \<Rightarrow> bool" where
  "is_str (Str s) = True"
| "is_str _ = False"

definition job_record :: "string list \<Rightarrow> pydict \<Rightarrow> bool" where
  "job_record fieldnames j =
     (set (keys j) = set fieldnames \<and> list_all (\<lambda>k. is_str (item j k)) fieldnames)"

text \<open>
  The file read back gives the records written: the header is the schema in its
  order, every row is as wide as the header, there is one row per record, in order,
  and under each field name stands the record's string.
\<close>

definition reads_back :: "string list \<Rightarrow> pydict list \<Rightarrow> csv_file \<Rightarrow> bool" where
  "reads_back fieldnames jobs f =
     (rows f \<noteq> [] \<and> hd (rows f) = map u fieldnames \<and>
      list_all (\<lambda>r. length r = length fieldnames) (rows f) \<and>
      list_all2 (\<lambda>row job. list_all (\<lambda>k. map_of row (u k) = Some (text_of (item job k))) fieldnames)
        (read_rows f) jobs)"

section \<open>Library functions taken as parameters\<close>

text \<open>
  Python's Unicode-aware string methods, its \<open>re\<close> engine and \<open>datetime\<close> are library
  code. The model takes them as a record of functions; every theorem below holds for
  whatever these functions are.
  \<^item> \<open>lower\<close>: \<open>str.lower\<close>;
  \<^item> \<open>isspace\<close>, \<open>isdigit\<close>: the character classes of \<open>str.strip\<close> and \<open>str.isdigit\<close>;
  \<^item> \<open>findall_numbers s\<close>: \<open>re.findall(r"[\d,.]+", s)\<close>;
  \<^item> \<open>email_search s\<close>: \<open>group(0)\<close> of \<open>re.search(r"[\w\.-]+@[\w\.-]+\.\w+", s)\<close>,
    \<open>None\<close> when there is no match;
  \<^item> \<open>years_search s\<close>: \<open>group(1)\<close> of \<open>re.search(r'(\d+)\s*anos?', s)\<close> (the \<open>n\<close> of the
    source is U+00F1), \<open>None\<close> when there is no match;
  \<^item> \<open>date_search s\<close>: whether
    \<open>re.search(r'\d{1,2}\s+(Oct|Nov|Dic|Jan|Feb|Mar|Apr|May|Jun|Jul|Aug|Sep)', s)\<close> matches;
  \<^item> \<open>strftime_ymd d\<close>: \<open>strftime("%Y-%m-%d")\<close> of the date whose ordinal is \<open>d\<close>
    (\<open>timedelta(days=n)\<close> adds \<open>n\<close> to the ordinal).
\<close>

record pylib =
  lower :: "ustr \<Rightarrow> ustr"
  isspace :: "nat \<Rightarrow> bool"
  isdigit :: "nat \<Rightarrow> bool"
  findall_numbers :: "ustr \<Rightarrow> ustr list"
  email_search :: "ustr \<Rightarrow> ustr option"
  years_search :: "ustr \<Rightarrow> ustr option"
  date_search :: "ustr \<Rightarrow> bool"
  strftime_ymd :: "int \<Rightarrow> ustr"

text \<open>\<open>s.strip()\<close>.\<close>

definition strip :: "pylib \<Rightarrow> ustr \<Rightarrow> ustr" where
  "strip L s = rev (dropWhile (isspace L) (rev (dropWhile (isspace L) s)))"

text \<open>\<open>s.startswith(p)\<close> and \<open>sub in s\<close>.\<close>

fun startswith :: "'a list \<Rightarrow> 'a list \<Rightarrow> bool" where
  "startswith s [] = True"
| "startswith [] (p # ps) = False"
| "startswith (x # xs) (p # ps) = (x = p \<and> startswith xs ps)"

fun contains :: "'a list \<Rightarrow> 'a list \<Rightarrow> bool" where
  "contains [] sub = (sub = [])"
| "contains (x # xs) sub = (startswith (x # xs) sub \<or> contains xs sub)"

text \<open>\<open>s.split(c)\<close> for a single character \<open>c\<close>: never the empty list.\<close>

fun split_on :: "'a \<Rightarrow> 'a list \<Rightarrow> 'a list list" where
  "split_on c [] = [[]]"
| "split_on c (x # xs) =
     (if x = c then [] # split_on c xs
      else (case split_on c xs of
              w # ws \<Rightarrow> (x # w) # ws
            | [] \<Rightarrow> [[x]]))"

text \<open>\<open>[l.strip() for l in text.split('\n') if l.strip()]\<close>.\<close>

definition stripped_lines :: "pylib \<Rightarrow> ustr \<Rightarrow> ustr list" where
  "stripped_lines L t = filter (\<lambda>l. l \<noteq> []) (map (strip L) (split_on 10 t))"

text \<open>The first element a \<open>for ... if ...: ...; break\<close> loop acts on.\<close>

definition first_where :: "('a \<Rightarrow> bool) \<Rightarrow> 'a list \<Rightarrow> 'a option" where
  "first_where P xs = List.find P xs"

text \<open>\<open>xs[:n]\<close>: a negative \<open>n\<close> counts from the end.\<close>

definition slice_to :: "'a list \<Rightarrow> int \<Rightarrow> 'a list" where
  "slice_to xs n = (if 0 \<le> n then take (nat n) xs else take (nat (int (length xs) + n)) xs)"

section \<open>Identifier discovery\<close>

subsection \<open>Pagination: \<open>get_job_ids_with_playwright_auto\<close> (all\_scraper.py)\<close>

text \<open>
  What the loop reads of the listing page on display:
  \<^item> \<open>buttons\<close>: the \<open>data-joboffer\<close> value of every \<open>button\<close> carrying the attribute,
    in document order (\<open>soup.find_all("button", attrs={"data-joboffer": True})\<close>);
  \<^item> \<open>anchors\<close>: the \<open>inner_text()\<close> of every \<open>a\<close> element, in document order;
  \<^item> \<open>click_ok\<close>: whether \<open>next_link.click()\<close> returns (it raises on a timeout or a
    detached element).
  A browser session is whether the first \<open>goto\<close> returns, and the page on display as
  listing page number \<open>n\<close>.
\<close>

record listing_page =
  buttons :: "ustr list"
  anchors :: "ustr list"
  click_ok :: bool

record browser =
  goto_ok :: bool
  pages :: "int \<Rightarrow> listing_page"

datatype stop_reason = NoButtons | NoNextLink | MaxPages | Crashed

record discovery =
  job_ids :: "ustr set"
  page_number :: int
  stop :: stop_reason

text \<open>
  \<^verbatim>\<open>
  for btn in buttons:
      job_id = btn.get("data-joboffer")
      if job_id:
          job_ids.add(job_id)
  \<close>
\<close>

definition add_job_ids :: "ustr set \<Rightarrow> ustr list \<Rightarrow> ustr set" where
  "add_job_ids ids btns = ids \<union> set (filter (\<lambda>job_id. job_id \<noteq> []) btns)"

text \<open>The tokens \<open>("siguiente", ">", "\<guillemotright>", "next")\<close>; the guillemet is U+00BB.\<close>

definition next_tokens :: "ustr list" where
  "next_tokens = [u ''siguiente'', u ''>'', [187], u ''next'']"

text \<open>The scan over the anchors: is there one whose stripped, lower-cased text is a token.\<close>

definition found_next :: "pylib \<Rightarrow> listing_page \<Rightarrow> bool" where
  "found_next L pg = list_ex (\<lambda>txt. lower L (strip L txt) \<in> set next_tokens) (anchors pg)"

text \<open>
  The \<open>while True\<close> loop. The record returned holds the variables at loop exit and
  which \<open>break\<close> (or the exception handler) ended it.
\<close>

function auto_loop ::
  "pylib \<Rightarrow> (int \<Rightarrow> listing_page) \<Rightarrow> int \<Rightarrow> int \<Rightarrow> ustr set \<Rightarrow> discovery" where
  "auto_loop L pgs max_pages pn ids =
     (let pg = pgs pn in
      if buttons pg = [] then \<lparr>job_ids = ids, page_number = pn, stop = NoButtons\<rparr>
      else let ids' = add_job_ids ids (buttons pg) in
        if \<not> found_next L pg then \<lparr>job_ids = ids', page_number = pn, stop = NoNextLink\<rparr>
        else if \<not> click_ok pg then \<lparr>job_ids = ids', page_number = pn, stop = Crashed\<rparr>
        else if pn + 1 > max_pages then \<lparr>job_ids = ids', page_number = pn + 1, stop = MaxPages\<rparr>
        else auto_loop L pgs max_pages (pn + 1) ids')"
  by pat_completeness auto
termination
  by (relation "measure (\<lambda>(L, pgs, max_pages, pn, ids). nat (max_pages - pn))") auto

declare auto_loop.simps [simp del]



subsection \<open>Scrolling: \<open>get_job_ids_with_playwright\<close> (scrape.py, elempleo\_full\_scraper.py)\<close>

text \<open>\<open>for btn in ...: job_ids.add(btn["data-joboffer"])\<close>.\<close>

definition add_scrolled_ids :: "ustr set \<Rightarrow> ustr list \<Rightarrow> ustr set" where
  "add_scrolled_ids ids btns = ids \<union> set btns"

text \<open>
  \<open>snaps n\<close> is what iteration \<open>n\<close> of the \<open>for\<close> loop captures after its wheel event:
  the \<open>data-joboffer\<close> values of the buttons, or \<open>None\<close> when the wheel event or the
  capture raises. The result is the identifier set and the number of completed scrolls.
\<close>

fun scroll_loop :: "(int \<Rightarrow> ustr list option) \<Rightarrow> int list \<Rightarrow> ustr set \<times> nat \<Rightarrow> ustr set \<times> nat" where
  "scroll_loop snaps [] acc = acc"
| "scroll_loop snaps (scroll # rest) (ids, k) =
     (case snaps scroll of
        None \<Rightarrow> (ids, k)
      | Some btns \<Rightarrow> scroll_loop snaps rest (add_scrolled_ids ids btns, Suc k))"


text \<open>A listing page on which the pagination loop goes on: it has job buttons, a next link, and the click returns.\<close>

definition page_ok :: "pylib \<Rightarrow> listing_page \<Rightarrow> bool" where
  "page_ok L pg = (buttons pg \<noteq> [] \<and> found_next L pg \<and> click_ok pg)"

section \<open>Card collection\<close>

subsection \<open>The selector cascade of combined\_scraper.py\<close>

text \<open>
  What \<open>scrape_elempleo\<close> reads of a card element:
  \<^item> \<open>card_text\<close>: \<open>card.inner_text()\<close>, \<open>None\<close> when the call raises;
  \<^item> \<open>link_href\<close>: the \<open>href\<close> of \<open>card.locator('a').first\<close>, \<open>None\<close> when the card has
    no link or the link has no \<open>href\<close>.
  Of the page: whether navigation and the debug screenshot return, and the elements
  \<open>page.locator(selector)\<close> finds, \<open>None\<close> when the query raises.
\<close>

record card =
  card_text :: "ustr option"
  link_href :: "ustr option"

record card_page =
  nav_ok :: bool
  locator :: "string \<Rightarrow> card list option"

text \<open>\<open>', '.join(selectors)\<close>.\<close>

fun join_selectors :: "string list \<Rightarrow> string" where
  "join_selectors [] = []"
| "join_selectors [s] = s"
| "join_selectors (s # t # ss) = s @ '', '' @ join_selectors (t # ss)"

text \<open>
  \<open>_find_elements_debug\<close>: the selector sets in order; a set whose query raises or
  counts zero elements is passed over, the first with a positive count is returned.
\<close>

fun find_elements_debug :: "card_page \<Rightarrow> string list list \<Rightarrow> card list" where
  "find_elements_debug page [] = []"
| "find_elements_debug page (selectors # rest) =
     (case locator page (join_selectors selectors) of
        None \<Rightarrow> find_elements_debug page rest
      | Some found \<Rightarrow>
          if length found > 0 then found else find_elements_debug page rest)"

definition elempleo_selector_sets :: "string list list" where
  "elempleo_selector_sets =
     [[''.js-joboffer-result''], [''article''], [''[class*=\"result\"]''],
      [''[class*=\"offer\"]''], [''[class*=\"job\"]''], [''div[class*=\"item\"]'']]"

text \<open>\<open>_init_job\<close>.\<close>

definition init_job :: "ustr \<Rightarrow> pydict" where
  "init_job site =
     (let job = empty_record FIELDS;
          job = setitem ''source_site'' (Str site) job;
          job = setitem ''featured'' (Bool False) job;
          job = setitem ''filled'' (Bool False) job;
          job = setitem ''urgent'' (Bool False) job
      in job)"

text \<open>The city names: San Jose and Limon are written with their accents, U+00E9 and U+00F3.\<close>

definition elempleo_cities :: "ustr list" where
  "elempleo_cities =
     [u ''San Jos'' @ [233], u ''Heredia'', u ''Cartago'', u ''Alajuela'', u ''Lim'' @ [243, 110]]"

text \<open>The salary test of the card loop: the colon sign U+20A1, a dollar sign, or \<open>colones\<close>.\<close>

definition card_salary_line :: "pylib \<Rightarrow> ustr \<Rightarrow> bool" where
  "card_salary_line L line =
     (contains line [8353] \<or> contains line (u ''$'') \<or> contains (lower L line) (u ''colones''))"

text \<open>
  The body of the \<open>for idx, card in enumerate(cards[:max_jobs], 1)\<close> loop up to the
  test of the title: the record built from one card, \<open>None\<close> when \<open>inner_text\<close> raises
  (the handler logs and goes on to the next card).
\<close>

definition elempleo_card :: "pylib \<Rightarrow> card \<Rightarrow> pydict option" where
  "elempleo_card L c =
     (case card_text c of
        None \<Rightarrow> None
      | Some txt \<Rightarrow>
          let job = init_job (u ''elempleo.com'');
              lines = stripped_lines L txt;
              job = (if length lines \<ge> 2 then
                       let job = setitem ''title'' (Str (lines ! 0)) job;
                           job = setitem ''company'' (Str (lines ! 1)) job;
                           job = (case first_where (\<lambda>line. list_ex (contains line) elempleo_cities) lines of
                                    Some line \<Rightarrow> setitem ''location'' (Str line) job
                                  | None \<Rightarrow> job);
                           job = (case first_where (card_salary_line L) lines of
                                    Some line \<Rightarrow> setitem ''salary'' (Str line) job
                                  | None \<Rightarrow> job);
                           job = (case years_search L (lower L txt) of
                                    Some years \<Rightarrow>
                                      setitem ''experience'' (Str (years @ [32, 97, 241, 111, 115])) job
                                  | None \<Rightarrow> job)
                       in job
                     else job);
              job = (case link_href c of
                       Some href \<Rightarrow>
                         if href \<noteq> [] then
                           setitem ''url''
                             (Str (if startswith href (u ''http'') then href
                                   else u ''https://www.elempleo.com'' @ href)) job
                         else job
                     | None \<Rightarrow> job);
              job = setitem ''apply_type'' (Str (u ''email'')) job;
              job = setitem ''apply_email'' (Str (u ''info@elempleo.com'')) job
          in Some job)"

text \<open>
  The rest of the loop body, for any of the card scrapers:
  \<^verbatim>\<open>
  if job['title']:
      self.jobs.append(job)
  \<close>
\<close>

fun card_loop :: "('c \<Rightarrow> pydict option) \<Rightarrow> 'c list \<Rightarrow> pydict list \<Rightarrow> pydict list" where
  "card_loop extract [] jobs = jobs"
| "card_loop extract (c # cs) jobs =
     (case extract c of
        None \<Rightarrow> card_loop extract cs jobs
      | Some job \<Rightarrow>
          if truthy (item job ''title'') then card_loop extract cs (jobs @ [job])
          else card_loop extract cs jobs)"

text \<open>The cards handed to extraction: \<open>cards[:max_jobs]\<close> of the cascade's result.\<close>

definition delegated_cards :: "card_page \<Rightarrow> int \<Rightarrow> card list" where
  "delegated_cards page max_jobs =
     slice_to (find_elements_debug page elempleo_selector_sets) max_jobs"

text \<open>\<open>scrape_elempleo\<close>: \<open>self.jobs\<close> before and after.\<close>

definition scrape_elempleo :: "pylib \<Rightarrow> card_page \<Rightarrow> int \<Rightarrow> pydict list \<Rightarrow> pydict list" where
  "scrape_elempleo L page max_jobs jobs =
     (if \<not> nav_ok page then jobs
      else if find_elements_debug page elempleo_selector_sets = [] then jobs
      else card_loop (elempleo_card L) (delegated_cards page max_jobs) jobs)"

subsection \<open>The selector cascade of elempleo\_scraper\_simple.py\<close>

text \<open>
  A parsed element is its stripped text and its \<open>href\<close> (\<open>''\<close> when it has none); a card
  answers \<open>select_one\<close>, the page answers \<open>select\<close>. A \<open>Tag\<close> is always true, so
  \<open>a or b\<close> on \<open>select_one\<close> results is the first that is not \<open>None\<close>; on \<open>select\<close>
  results it is the first non-empty list, and the last list when all are empty.
\<close>

record elem =
  etext :: ustr
  ehref :: ustr

record soup_card =
  select_one :: "string \<Rightarrow> elem option"

record listing_soup =
  select_all :: "string \<Rightarrow> soup_card list"

fun first_found :: "(string \<Rightarrow> 'a option) \<Rightarrow> string list \<Rightarrow> 'a option" where
  "first_found f [] = None"
| "first_found f (s # ss) = (case f s of Some x \<Rightarrow> Some x | None \<Rightarrow> first_found f ss)"

fun first_nonempty :: "(string \<Rightarrow> 'a list) \<Rightarrow> string list \<Rightarrow> 'a list" where
  "first_nonempty f [] = []"
| "first_nonempty f (s # ss) = (if f s \<noteq> [] then f s else first_nonempty f ss)"

definition simple_card_selectors :: "string list" where
  "simple_card_selectors =
     [''.card-offer'', ''.job-item'', ''article.job'', ''[data-job-id]'', ''.vacancy-card'']"

text \<open>\<open>_parse_job_card\<close>.\<close>

definition parse_job_card :: "soup_card \<Rightarrow> pydict" where
  "parse_job_card c =
     (let job = empty_record quickview_fieldnames;
          job = (case first_found (select_one c) [''h2 a'', ''h3 a'', ''.job-title a'', ''a.title''] of
                   Some title_elem \<Rightarrow>
                     let job = setitem ''title'' (Str (etext title_elem)) job;
                         href = ehref title_elem
                     in if href \<noteq> [] then
                          setitem ''url''
                            (Str (if startswith href (u ''http'') then href
                                  else u ''https://www.elempleo.com'' @ href)) job
                        else job
                 | None \<Rightarrow> job);
          job = (case first_found (select_one c) [''.company'', ''.company-name'', ''.employer''] of
                   Some e \<Rightarrow> setitem ''company'' (Str (etext e)) job | None \<Rightarrow> job);
          job = (case first_found (select_one c) [''.location'', ''.job-location'', ''.place''] of
                   Some e \<Rightarrow> setitem ''location'' (Str (etext e)) job | None \<Rightarrow> job);
          job = (case first_found (select_one c) [''.salary'', ''.wage'', ''.compensation''] of
                   Some e \<Rightarrow> setitem ''salary'' (Str (etext e)) job | None \<Rightarrow> job);
          job = (case first_found (select_one c) [''.date'', ''.posted-date'', ''time''] of
                   Some e \<Rightarrow> setitem ''posting_date'' (Str (etext e)) job | None \<Rightarrow> job);
          job = (case first_found (select_one c) [''.description'', ''.job-desc'', ''.summary''] of
                   Some e \<Rightarrow> setitem ''description'' (Str (take 500 (etext e))) job | None \<Rightarrow> job)
      in job)"

text \<open>\<open>_extract_jobs_from_soup\<close>: \<open>self.jobs\<close> after, and the number returned.\<close>

definition extract_jobs_from_soup :: "listing_soup \<Rightarrow> pydict list \<Rightarrow> pydict list \<times> nat" where
  "extract_jobs_from_soup soup jobs =
     (let job_cards = first_nonempty (select_all soup) simple_card_selectors in
      if job_cards = [] then (jobs, 0)
      else (card_loop (\<lambda>c. Some (parse_job_card c)) job_cards jobs, length job_cards))"

text \<open>
  \<open>SimpleElempleoScraper.scrape\<close>: \<open>fetch n\<close> is the parsed listing page \<open>n\<close>, \<open>None\<close> when
  the request or \<open>raise_for_status\<close> raises, which ends the loop.
\<close>

fun simple_pages :: "(int \<Rightarrow> listing_soup option) \<Rightarrow> int list \<Rightarrow> pydict list \<Rightarrow> pydict list" where
  "simple_pages fetch [] jobs = jobs"
| "simple_pages fetch (page # rest) jobs =
     (case fetch page of
        None \<Rightarrow> jobs
      | Some soup \<Rightarrow>
          (case extract_jobs_from_soup soup jobs of
             (jobs', jobs_found) \<Rightarrow>
               if jobs_found = 0 then jobs' else simple_pages fetch rest jobs'))"

definition scrape_simple :: "(int \<Rightarrow> listing_soup option) \<Rightarrow> int \<Rightarrow> pydict list \<Rightarrow> pydict list" where
  "scrape_simple fetch max_pages jobs = simple_pages fetch [1..max_pages] jobs"


section \<open>Field extraction from the quick-view modal (elempleo\_scraper.py)\<close>

text \<open>
  What \<open>_extract_from_quick_view\<close> reads of the modal element:
  \<^item> \<open>locate_text sel\<close>: \<open>inner_text()\<close> of \<open>modal.locator(sel).first\<close>, \<open>None\<close> when no
    element matches or the lookup raises (the bare \<open>except: pass\<close> makes both fall
    through to the next selector);
  \<^item> \<open>modal_link\<close>: the \<open>href\<close> of the first job link, \<open>None\<close> when there is none or
    the lookup raises;
  \<^item> \<open>modal_text\<close>: \<open>modal.inner_text()\<close>, \<open>None\<close> when it raises.
  Of the page: the first element of each modal selector, and \<open>body\<close>.
\<close>

record modal =
  locate_text :: "string \<Rightarrow> ustr option"
  modal_link :: "ustr option"
  modal_text :: "ustr option"

record qv_page =
  modal_at :: "string \<Rightarrow> modal option"
  body :: modal

definition modal_selectors :: "string list" where
  "modal_selectors =
     [''[class*=\"modal\"]'', ''[class*=\"popup\"]'', ''[class*=\"quick-view\"]'',
      ''[role=\"dialog\"]'', ''.overlay-content'']"

definition pick_modal :: "qv_page \<Rightarrow> modal" where
  "pick_modal pg = (case first_found (modal_at pg) modal_selectors of Some m \<Rightarrow> m | None \<Rightarrow> body pg)"

text \<open>
  One selector cascade:
  \<^verbatim>\<open>
  for sel in selectors:
      try:
          elem = modal.locator(sel).first
          if elem.count() > 0:
              text = elem.inner_text().strip()
              if <accept text>:
                  job[field] = text
                  break
      except:
          pass
  \<close>
\<close>

fun cascade :: "pylib \<Rightarrow> (ustr \<Rightarrow> bool) \<Rightarrow> modal \<Rightarrow> string list \<Rightarrow> ustr option" where
  "cascade L accept m [] = None"
| "cascade L accept m (sel # sels) =
     (case locate_text m sel of
        None \<Rightarrow> cascade L accept m sels
      | Some raw \<Rightarrow>
          if accept (strip L raw) then Some (strip L raw) else cascade L accept m sels)"

definition assign_found :: "string \<Rightarrow> ustr option \<Rightarrow> pydict \<Rightarrow> pydict" where
  "assign_found field found job = (case found of Some t \<Rightarrow> setitem field (Str t) job | None \<Rightarrow> job)"

definition title_selectors :: "string list" where
  "title_selectors = [''h1'', ''h2'', ''.job-title'', ''[class*=\"title\"]'']"

definition company_selectors :: "string list" where
  "company_selectors = [''.company'', ''.company-name'', ''[class*=\"empresa\"]'', ''[class*=\"company\"]'']"

definition location_selectors :: "string list" where
  "location_selectors = [''.location'', ''[class*=\"ubicacion\"]'', ''[class*=\"location\"]'']"

definition desc_selectors :: "string list" where
  "desc_selectors = [''.description'', ''.job-description'', ''[class*=\"descripcion\"]'', ''article'', ''.content'']"

definition salary_selectors :: "string list" where
  "salary_selectors = [''.salary'', ''[class*=\"salario\"]'', ''[class*=\"sueldo\"]'']"

definition date_selectors :: "string list" where
  "date_selectors = [''.date'', ''.posted-date'', ''time'', ''[class*=\"fecha\"]'', ''[class*=\"publicado\"]'']"

text \<open>A text bears a money mark: the colon sign, a dollar sign, or \<open>confidencial\<close>.\<close>

definition money_mark :: "pylib \<Rightarrow> ustr \<Rightarrow> bool" where
  "money_mark L t =
     (contains t [8353] \<or> contains t (u ''$'') \<or> contains (lower L t) (u ''confidencial''))"

text \<open>The test of the salary line in the full-text pass: both \<open>if\<close>s of the source.\<close>

definition salary_line :: "pylib \<Rightarrow> ustr \<Rightarrow> bool" where
  "salary_line L line =
     (money_mark L line \<and>
      (list_ex (isdigit L) line \<or> contains (lower L line) (u ''confidencial'')))"

definition quickview_cities :: "ustr list" where
  "quickview_cities =
     [u ''San Jos'' @ [233], u ''Heredia'', u ''Cartago'', u ''Alajuela'', u ''Lim'' @ [243, 110],
      u ''Guanacaste'', u ''Puntarenas'']"

text \<open>The test each cascade puts to the stripped text of a match.\<close>

definition title_ok :: "ustr \<Rightarrow> bool" where
  "title_ok t = (t \<noteq> [] \<and> length t > 3)"

definition company_ok :: "ustr \<Rightarrow> bool" where
  "company_ok t = (t \<noteq> [] \<and> length t > 1)"

definition location_ok :: "ustr \<Rightarrow> bool" where
  "location_ok t = (t \<noteq> [])"

definition desc_ok :: "ustr \<Rightarrow> bool" where
  "desc_ok t = (length t > 100)"

definition salary_ok :: "pylib \<Rightarrow> ustr \<Rightarrow> bool" where
  "salary_ok L t = (t \<noteq> [] \<and> money_mark L t)"

definition date_ok :: "pylib \<Rightarrow> ustr \<Rightarrow> bool" where
  "date_ok L t =
     (t \<noteq> [] \<and> (contains t (u ''2025'') \<or> contains t (u ''2024'') \<or> contains t (u ''Oct'') \<or>
                 contains (lower L t) (u ''hace'')))"

text \<open>The selector pass: title, company, location, description, salary, date, link.\<close>

definition selector_pass :: "pylib \<Rightarrow> modal \<Rightarrow> pydict" where
  "selector_pass L m =
     (let job = empty_record quickview_fieldnames;
          job = assign_found ''title'' (cascade L title_ok m title_selectors) job;
          job = assign_found ''company'' (cascade L company_ok m company_selectors) job;
          job = assign_found ''location'' (cascade L location_ok m location_selectors) job;
          job = assign_found ''description'' (cascade L desc_ok m desc_selectors) job;
          job = assign_found ''salary'' (cascade L (salary_ok L) m salary_selectors) job;
          job = assign_found ''posting_date'' (cascade L (date_ok L) m date_selectors) job;
          job = (case modal_link m of
                   Some href \<Rightarrow>
                     if href \<noteq> [] then
                       setitem ''url''
                         (Str (if startswith href (u ''http'') then href
                               else u ''https://www.elempleo.com'' @ href)) job
                     else job
                 | None \<Rightarrow> job)
      in job)"

text \<open>
  The full-text pass, entered only under
  \<open>if not job['company'] or not job['location']\<close>; a raising \<open>inner_text\<close> leaves the
  record as the selector pass made it.
\<close>

definition text_pass :: "pylib \<Rightarrow> modal \<Rightarrow> pydict \<Rightarrow> pydict" where
  "text_pass L m job =
     (case modal_text m of
        None \<Rightarrow> job
      | Some txt \<Rightarrow>
          let lines = stripped_lines L txt;
              job = (if \<not> truthy (item job ''company'') \<and> length lines > 1 then
                       assign_found ''company''
                         (first_where
                            (\<lambda>line. Str line \<noteq> item job ''title'' \<and> length line > 3 \<and> length line < 100 \<and>
                                    \<not> list_ex (contains (lower L line))
                                        [u ''publicado'', u ''vista'', u ''aplicar''])
                            (take 4 (drop 1 lines))) job
                     else job);
              job = (if \<not> truthy (item job ''location'') then
                       assign_found ''location''
                         (first_where (\<lambda>line. list_ex (contains line) quickview_cities) lines) job
                     else job);
              job = (if \<not> truthy (item job ''salary'') then
                       assign_found ''salary'' (first_where (salary_line L) lines) job
                     else job);
              job = (if \<not> truthy (item job ''posting_date'') then
                       assign_found ''posting_date''
                         (first_where (\<lambda>line. contains (lower L line) (u ''publicado'') \<or> date_search L line)
                            lines) job
                     else job)
          in job)"

definition extract_from_quick_view :: "pylib \<Rightarrow> qv_page \<Rightarrow> pydict" where
  "extract_from_quick_view L pg =
     (let m = pick_modal pg;
          job = selector_pass L m
      in if \<not> truthy (item job ''company'') \<or> \<not> truthy (item job ''location'')
         then text_pass L m job else job)"

subsection \<open>The quick-view loop\<close>






section \<open>Field extraction from a detail page\<close>

text \<open>
  What the two detail extractors read of the parsed page:
  \<^item> \<open>select_text sel\<close>: \<open>get_text(strip=True)\<close> of \<open>soup.select_one(sel)\<close>, \<open>None\<close> when
    nothing matches;
  \<^item> \<open>img_src\<close>: the \<open>src\<close> of the first image matching
    \<open>img[src*='empleo'], img[src*='ofertas']\<close>;
  \<^item> \<open>desc_text\<close>: the description text built from the description container (line
    breaks normalised, paragraphs and list items flattened), \<open>None\<close> when there is no
    container;
  \<^item> \<open>first_span\<close>: the stripped text of \<open>soup.find("span")\<close>;
  \<^item> \<open>data_spans\<close>: the stripped texts of \<open>soup.select(".data-column span")\<close>;
  \<^item> \<open>career_span\<close>: the stripped text of the span after the \<open>fa-level-down\<close> icon;
  \<^item> \<open>full_text\<close>: \<open>soup.get_text(...)\<close>, the text searched for an e-mail address;
  \<^item> \<open>og_url\<close>: the \<open>content\<close> of \<open>meta[property="og:url"]\<close>;
  \<^item> \<open>apply_link\<close>: the \<open>href\<close> of the first element matching
    \<open>a[href*='apply'], a[href*='postulate'], a[href*='mailto:'], a.button.apply\<close>.
  Any statement of the \<open>try\<close> body may raise (a navigation timeout, a detached page);
  \<open>raised_at\<close> is the number of blocks of the body completed before the exception,
  \<open>None\<close> when none is raised. Block 0 is the navigation.
\<close>

record detail_soup =
  select_text :: "string \<Rightarrow> ustr option"
  img_src :: "ustr option"
  desc_text :: "ustr option"
  first_span :: "ustr option"
  data_spans :: "ustr list"
  career_span :: "ustr option"
  full_text :: ustr
  og_url :: "ustr option"
  apply_link :: "ustr option"

record detail_page =
  soup :: detail_soup
  raised_at :: "nat option"

text \<open>\<open>extract_text(soup, selector)\<close>, the same in both files.\<close>

definition extract_text :: "detail_soup \<Rightarrow> string \<Rightarrow> ustr" where
  "extract_text s selector = (case select_text s selector of Some t \<Rightarrow> t | None \<Rightarrow> [])"

text \<open>The \<open>try\<close> body as its blocks in order, cut where the exception is raised.\<close>

definition run_blocks :: "nat option \<Rightarrow> (pydict \<Rightarrow> pydict) list \<Rightarrow> pydict \<Rightarrow> pydict" where
  "run_blocks raised blocks job =
     (case raised of
        None \<Rightarrow> fold (\<lambda>block j. block j) blocks job
      | Some n \<Rightarrow> fold (\<lambda>block j. block j) (take n blocks) job)"


text \<open>The salary type and maximum: the last number of \<open>re.findall(r"[\d,.]+", salary_text)\<close>.\<close>

definition salary_numbers :: "pylib \<Rightarrow> string \<Rightarrow> string \<Rightarrow> ustr \<Rightarrow> pyval \<Rightarrow> pydict \<Rightarrow> pydict" where
  "salary_numbers L type_key max_key type_name salary_text job =
     (if truthy salary_text then
        let numbers = findall_numbers L (text_of salary_text) in
        if length numbers \<ge> 1 then
          setitem max_key (Str (last numbers)) (setitem type_key (Str type_name) job)
        else job
      else job)"

subsection \<open>\<open>get_job_details\<close> (all\_scraper.py)\<close>

definition HEADERS :: "string list" where
  "HEADERS =
     [''_job_featured_image'', ''_job_title'', ''_job_featured'', ''_job_filled'', ''_job_urgent'',
      ''_job_description'', ''_job_category'', ''_job_type'', ''_job_tag'', ''_job_expiry_date'',
      ''_job_gender'', ''_job_apply_type'', ''_job_apply_url'', ''_job_apply_email'',
      ''_job_salary_type'', ''_job_salary'', ''_job_max_salary'',
      ''_job_experience'', ''_job_career_level'', ''_job_qualification'', ''_job_video_url'',
      ''_job_photos'', ''_job_application_deadline_date'', ''_job_address'', ''_job_location'',
      ''_job_map_location'']"

definition image_block :: "detail_soup \<Rightarrow> pydict \<Rightarrow> pydict" where
  "image_block s job =
     (case img_src s of Some src \<Rightarrow> setitem ''_job_featured_image'' (Str src) job | None \<Rightarrow> job)"

definition description_block :: "detail_soup \<Rightarrow> pydict \<Rightarrow> pydict" where
  "description_block s job =
     (case desc_text s of Some d \<Rightarrow> setitem ''_job_description'' (Str d) job | None \<Rightarrow> job)"

definition title_block :: "detail_soup \<Rightarrow> pydict \<Rightarrow> pydict" where
  "title_block s job =
     (let job = setitem ''_job_title''
                  (Str (extract_text s ''.category, [class*='categoria'], .breadcrumb li:last-child'')) job;
          job = setitem ''_job_category'' (Str (extract_text s ''.js-position-area'')) job
      in job)"

text \<open>
  \<^verbatim>\<open>
  job_type = "Tiempo completo"
  span = soup.find("span")
  if span:
      text = span.get_text(strip=True).lower()
      if "medio tiempo" in text: job_type = "Medio tiempo"
      elif "remoto" in text: job_type = "Remoto"
  job["_job_type"] = job_type
  \<close>
\<close>

definition job_type_of :: "pylib \<Rightarrow> detail_soup \<Rightarrow> ustr" where
  "job_type_of L s =
     (case first_span s of
        None \<Rightarrow> u ''Tiempo completo''
      | Some t \<Rightarrow>
          if contains (lower L t) (u ''medio tiempo'') then u ''Medio tiempo''
          else if contains (lower L t) (u ''remoto'') then u ''Remoto''
          else u ''Tiempo completo'')"

definition type_block :: "pylib \<Rightarrow> detail_soup \<Rightarrow> pydict \<Rightarrow> pydict" where
  "type_block L s job = setitem ''_job_type'' (Str (job_type_of L s)) job"

definition salary_block :: "pylib \<Rightarrow> detail_soup \<Rightarrow> pydict \<Rightarrow> pydict" where
  "salary_block L s job =
     (let salary_text = Str (extract_text s ''[class*='salario'], .js-joboffer-salary, .compensation'');
          job = setitem ''_job_salary'' salary_text job
      in salary_numbers L ''_job_salary_type'' ''_job_max_salary'' (u ''Mensual'') salary_text job)"

definition location_block :: "detail_soup \<Rightarrow> pydict \<Rightarrow> pydict" where
  "location_block s job =
     (let job = setitem ''_job_location''
                  (Str (extract_text s ''[class*='ubicacion'], .js-joboffer-city, [itemprop='addressLocality']'')) job;
          job = setitem ''_job_address'' (item job ''_job_location'') job
      in job)"

text \<open>
  \<open>today\<close> is the ordinal of \<open>datetime.today()\<close>:
  \<^verbatim>\<open>
  expiry_date = datetime.today() + timedelta(days=30)
  job["_job_expiry_date"] = expiry_date.strftime("%Y-%m-%d")
  job["_job_application_deadline_date"] = expiry_date.strftime("%Y-%m-%d")
  \<close>
\<close>

definition dates_block :: "pylib \<Rightarrow> int \<Rightarrow> pydict \<Rightarrow> pydict" where
  "dates_block L today job =
     (let expiry_date = today + 30;
          job = setitem ''_job_expiry_date'' (Str (strftime_ymd L expiry_date)) job;
          job = setitem ''_job_application_deadline_date'' (Str (strftime_ymd L expiry_date)) job
      in job)"

text \<open>The test of the experience span: \<open>experiencia\<close> or \<open>a\<close>, U+00F1, \<open>os\<close> in the lower-cased text.\<close>

definition experience_block :: "pylib \<Rightarrow> detail_soup \<Rightarrow> pydict \<Rightarrow> pydict" where
  "experience_block L s job =
     (case first_where (\<lambda>t. contains (lower L t) (u ''experiencia'') \<or>
                            contains (lower L t) [97, 241, 111, 115]) (data_spans s) of
        Some t \<Rightarrow> setitem ''_job_experience'' (Str t) job
      | None \<Rightarrow> job)"

definition qualification_block :: "detail_soup \<Rightarrow> pydict \<Rightarrow> pydict" where
  "qualification_block s job =
     setitem ''_job_qualification''
       (Str (extract_text s ''[class*='js-education-level'], [class*='formacion']'')) job"

definition career_block :: "detail_soup \<Rightarrow> pydict \<Rightarrow> pydict" where
  "career_block s job =
     (case career_span s of Some t \<Rightarrow> setitem ''_job_career_level'' (Str t) job | None \<Rightarrow> job)"

definition contact_block :: "pylib \<Rightarrow> detail_soup \<Rightarrow> pydict \<Rightarrow> pydict" where
  "contact_block L s job =
     (let job = (case email_search L (full_text s) of
                   Some email \<Rightarrow> setitem ''_job_apply_email'' (Str email) job
                 | None \<Rightarrow> job);
          job = (case og_url s of
                   Some content \<Rightarrow> if content \<noteq> [] then setitem ''_job_apply_url'' (Str content) job else job
                 | None \<Rightarrow> job)
      in job)"

definition defaults_block :: "pydict \<Rightarrow> pydict" where
  "defaults_block job =
     (let job = setitem ''_job_featured'' (Str (u ''1'')) job;
          job = setitem ''_job_filled'' (Str (u ''0'')) job;
          job = setitem ''_job_urgent'' (Str (u ''0'')) job;
          job = setitem ''_job_gender'' (Str []) job;
          job = setitem ''_job_tag'' (Str (u ''Costa Rica'')) job;
          job = setitem ''_job_video_url'' (Str []) job;
          job = setitem ''_job_photos'' (Str []) job;
          job = setitem ''_job_map_location'' (Str []) job;
          job = setitem ''_job_apply_type'' (Str (u ''external'')) job
      in job)"

text \<open>The body of the \<open>try\<close>: navigation and parsing first, then the field blocks.\<close>

definition details_blocks :: "pylib \<Rightarrow> int \<Rightarrow> detail_soup \<Rightarrow> (pydict \<Rightarrow> pydict) list" where
  "details_blocks L today s =
     [(\<lambda>job. job), image_block s, description_block s, title_block s, type_block L s,
      salary_block L s, location_block s, dates_block L today, experience_block L s,
      qualification_block s, career_block s, contact_block L s, defaults_block]"

definition get_job_details :: "pylib \<Rightarrow> int \<Rightarrow> detail_page \<Rightarrow> pydict" where
  "get_job_details L today pg =
     run_blocks (raised_at pg) (details_blocks L today (soup pg)) (empty_record HEADERS)"

subsection \<open>\<open>enrich_with_detail\<close> (elempleo\_full\_scraper.py)\<close>















subsection \<open>A page on which nothing is found\<close>

text \<open>Every lookup of \<open>get_job_details\<close> comes back empty.\<close>

definition nothing_found :: "pylib \<Rightarrow> detail_soup \<Rightarrow> bool" where
  "nothing_found L s =
     (select_text s = (\<lambda>sel. None) \<and> img_src s = None \<and> desc_text s = None \<and>
      first_span s = None \<and> data_spans s = [] \<and> career_span s = None \<and>
      email_search L (full_text s) = None \<and> og_url s = None)"

text \<open>The record \<open>get_job_details\<close> then returns: its constants, and the placeholder date.\<close>

definition record_of_nothing :: "pylib \<Rightarrow> int \<Rightarrow> pydict" where
  "record_of_nothing L today =
     [(''_job_featured_image'', Str []), (''_job_title'', Str []), (''_job_featured'', Str (u ''1'')),
      (''_job_filled'', Str (u ''0'')), (''_job_urgent'', Str (u ''0'')), (''_job_description'', Str []),
      (''_job_category'', Str []), (''_job_type'', Str (u ''Tiempo completo'')),
      (''_job_tag'', Str (u ''Costa Rica'')),
      (''_job_expiry_date'', Str (strftime_ymd L (today + 30))), (''_job_gender'', Str []),
      (''_job_apply_type'', Str (u ''external'')), (''_job_apply_url'', Str []),
      (''_job_apply_email'', Str []), (''_job_salary_type'', Str []), (''_job_salary'', Str []),
      (''_job_max_salary'', Str []), (''_job_experience'', Str []), (''_job_career_level'', Str []),
      (''_job_qualification'', Str []), (''_job_video_url'', Str []), (''_job_photos'', Str []),
      (''_job_application_deadline_date'', Str (strftime_ymd L (today + 30))),
      (''_job_address'', Str []), (''_job_location'', Str []), (''_job_map_location'', Str [])]"

section \<open>An instance of the library on ASCII text\<close>

text \<open>
  The theorems hold for every \<open>pylib\<close>. To evaluate the model on concrete pages, this
  instance gives the library functions their Python values on ASCII text (and leaves
  every other code point unchanged, outside every class), and on dates from year 1 on.
\<close>

definition ascii_lower :: "ustr \<Rightarrow> ustr" where
  "ascii_lower s = map (\<lambda>c. if 65 \<le> c \<and> c \<le> 90 then c + 32 else c) s"

definition ascii_isspace :: "nat \<Rightarrow> bool" where
  "ascii_isspace c = ((9 \<le> c \<and> c \<le> 13) \<or> (28 \<le> c \<and> c \<le> 32))"

definition ascii_isdigit :: "nat \<Rightarrow> bool" where
  "ascii_isdigit c = (48 \<le> c \<and> c \<le> 57)"

text \<open>The maximal runs of characters of a class, left to right.\<close>

fun runs_of :: "(nat \<Rightarrow> bool) \<Rightarrow> ustr \<Rightarrow> ustr \<Rightarrow> ustr list" where
  "runs_of P cur [] = (if cur = [] then [] else [cur])"
| "runs_of P cur (c # cs) =
     (if P c then runs_of P (cur @ [c]) cs
      else if cur = [] then runs_of P [] cs
      else cur # runs_of P [] cs)"

definition ascii_findall_numbers :: "ustr \<Rightarrow> ustr list" where
  "ascii_findall_numbers s = runs_of (\<lambda>c. ascii_isdigit c \<or> c = 44 \<or> c = 46) [] s"

definition month_tokens :: "ustr list" where
  "month_tokens = map u [''Oct'', ''Nov'', ''Dic'', ''Jan'', ''Feb'', ''Mar'', ''Apr'', ''May'',
                         ''Jun'', ''Jul'', ''Aug'', ''Sep'']"

fun ascii_date_search :: "ustr \<Rightarrow> bool" where
  "ascii_date_search [] = False"
| "ascii_date_search (c # cs) =
     ((ascii_isdigit c \<and> cs \<noteq> [] \<and> ascii_isspace (hd cs) \<and>
       list_ex (startswith (dropWhile ascii_isspace cs)) month_tokens)
      \<or> ascii_date_search cs)"

text \<open>\<open>\w\<close> and \<open>[\w\.-]\<close> on ASCII.\<close>

definition ascii_isword :: "nat \<Rightarrow> bool" where
  "ascii_isword c = ((48 \<le> c \<and> c \<le> 57) \<or> (65 \<le> c \<and> c \<le> 90) \<or> (97 \<le> c \<and> c \<le> 122) \<or> c = 95)"

definition ascii_isaddr :: "nat \<Rightarrow> bool" where
  "ascii_isaddr c = (ascii_isword c \<or> c = 46 \<or> c = 45)"

text \<open>
  The domain part of a match: of the run after the \<open>@\<close>, the longest proper prefix that
  is followed by a dot and a word character, then the dot and the word characters after it.
  The run is scanned with the characters already passed in \<open>seen\<close>.
\<close>

fun domain_match :: "ustr \<Rightarrow> ustr \<Rightarrow> ustr option" where
  "domain_match seen [] = None"
| "domain_match seen (c # cs) =
     (case domain_match (seen @ [c]) cs of
        Some m \<Rightarrow> Some m
      | None \<Rightarrow>
          (if c = 46 \<and> seen \<noteq> [] \<and> cs \<noteq> [] \<and> ascii_isword (hd cs)
           then Some (seen @ [46] @ takeWhile ascii_isword cs) else None))"

fun ascii_email_search :: "ustr \<Rightarrow> ustr option" where
  "ascii_email_search [] = None"
| "ascii_email_search (c # cs) =
     (let name = takeWhile ascii_isaddr (c # cs); rest = dropWhile ascii_isaddr (c # cs) in
      if name \<noteq> [] \<and> rest \<noteq> [] \<and> hd rest = 64 then
        (case domain_match [] (takeWhile ascii_isaddr (tl rest)) of
           Some dpart \<Rightarrow> Some (name @ [64] @ dpart)
         | None \<Rightarrow> ascii_email_search cs)
      else ascii_email_search cs)"

fun ascii_years_search :: "ustr \<Rightarrow> ustr option" where
  "ascii_years_search [] = None"
| "ascii_years_search (c # cs) =
     (let num = takeWhile ascii_isdigit (c # cs); rest = dropWhile ascii_isdigit (c # cs) in
      if num \<noteq> [] \<and> startswith (dropWhile ascii_isspace rest) ([97, 241, 111])
      then Some num else ascii_years_search cs)"

text \<open>Decimal digits of \<open>n\<close>, zero-padded to \<open>w\<close> places.\<close>

fun pad_digits :: "nat \<Rightarrow> nat \<Rightarrow> ustr" where
  "pad_digits 0 n = []"
| "pad_digits (Suc w) n = pad_digits w (n div 10) @ [48 + n mod 10]"

text \<open>Year, month and day of a proleptic Gregorian ordinal (day 1 is 0001-01-01).\<close>

definition civil_of_ordinal :: "int \<Rightarrow> int \<times> int \<times> int" where
  "civil_of_ordinal n =
     (let z = n + 305;
          era = z div 146097;
          doe = z mod 146097;
          yoe = (doe - doe div 1460 + doe div 36524 - doe div 146096) div 365;
          doy = doe - (365 * yoe + yoe div 4 - yoe div 100);
          mp = (5 * doy + 2) div 153;
          d = doy - (153 * mp + 2) div 5 + 1;
          m = (if mp < 10 then mp + 3 else mp - 9);
          y = yoe + era * 400 + (if m \<le> 2 then 1 else 0)
      in (y, m, d))"

definition ascii_strftime_ymd :: "int \<Rightarrow> ustr" where
  "ascii_strftime_ymd n =
     (case civil_of_ordinal n of
        (y, m, d) \<Rightarrow> pad_digits 4 (nat y) @ [45] @ pad_digits 2 (nat m) @ [45] @ pad_digits 2 (nat d))"

definition ascii_lib :: pylib where
  "ascii_lib = \<lparr>lower = ascii_lower, isspace = ascii_isspace, isdigit = ascii_isdigit,
                 findall_numbers = ascii_findall_numbers, email_search = ascii_email_search,
                 years_search = ascii_years_search, date_search = ascii_date_search,
                 strftime_ymd = ascii_strftime_ymd\<rparr>"

section \<open>Concrete pages\<close>

text \<open>A listing whose every page shows the same single job and a next link.\<close>

definition same_page :: listing_page where
  "same_page = \<lparr>buttons = [u ''101''], anchors = [u ''Inicio'', u '' Siguiente ''], click_ok = True\<rparr>"

definition same_browser :: browser where
  "same_browser = \<lparr>goto_ok = True, pages = (\<lambda>n. same_page)\<rparr>"

text \<open>A detail page with no element any selector matches, and no text.\<close>

definition blank_soup :: detail_soup where
  "blank_soup = \<lparr>select_text = (\<lambda>sel. None), img_src = None, desc_text = None, first_span = None,
                  data_spans = [], career_span = None, full_text = [], og_url = None,
                  apply_link = None\<rparr>"

definition blank_page :: detail_page where
  "blank_page = \<lparr>soup = blank_soup, raised_at = None\<rparr>"

text \<open>
  A listing card of four lines: title, company, city, and a salary line with the colon
  sign (U+20A1).
\<close>

definition dev_text :: ustr where
  "dev_text = u ''Desarrollador'' @ [10] @ u ''Acme'' @ [10] @ u ''Heredia'' @ [10, 8353] @ u ''450,000 mensual''"

definition dev_card :: card where
  "dev_card = \<lparr>card_text = Some dev_text, link_href = Some (u ''/cr/oferta/1'')\<rparr>"

text \<open>A detail page whose navigation raises.\<close>

definition unreachable_page :: detail_page where
  "unreachable_page = \<lparr>soup = blank_soup, raised_at = Some 0\<rparr>"



text \<open>A card whose text is a single line, so no title is read from it.\<close>

definition one_line_card :: card where
  "one_line_card = \<lparr>card_text = Some (u ''Desarrollador''), link_href = Some (u ''/cr/oferta/2'')\<rparr>"

text \<open>
  A listing on which the first selector raises, \<open>article\<close> matches two cards, and the
  third selector, lower in priority, matches one.
\<close>

definition article_page :: card_page where
  "article_page =
     \<lparr>nav_ok = True,
      locator = (\<lambda>sel. if sel = ''.js-joboffer-result'' then None
                       else if sel = ''article'' then Some [dev_card, one_line_card]
                       else if sel = ''[class*=\"result\"]'' then Some [one_line_card]
                       else Some [])\<rparr>"


text \<open>A disk with no file, every path writable.\<close>

definition empty_disk :: filesys where
  "empty_disk = \<lparr>files = (\<lambda>name. None), unwritable = (\<lambda>name. False)\<rparr>"

text \<open>
  Quick-view pages on which no selector matches, so that the record comes from the
  text alone: one with the text of the four-line card, one whose only money mark is a
  dollar sign without a digit.
\<close>

definition text_only_page :: qv_page where
  "text_only_page =
     \<lparr>modal_at = (\<lambda>sel. None),
      body = \<lparr>locate_text = (\<lambda>sel. None), modal_link = None, modal_text = Some dev_text\<rparr>\<rparr>"

definition convenir_text :: ustr where
  "convenir_text = u ''Desarrollador'' @ [10] @ u ''Pago en $ a convenir''"

definition convenir_page :: qv_page where
  "convenir_page =
     \<lparr>modal_at = (\<lambda>sel. None),
      body = \<lparr>locate_text = (\<lambda>sel. None), modal_link = None, modal_text = Some convenir_text\<rparr>\<rparr>"

text \<open>A listing card whose salary line says only that the salary is confidential.\<close>

definition confidential_text :: ustr where
  "confidential_text = u ''Desarrollador'' @ [10] @ u ''Acme'' @ [10] @ u ''Salario confidencial''"

definition confidential_card :: card where
  "confidential_card = \<lparr>card_text = Some confidential_text, link_href = None\<rparr>"

text \<open>Two records over their schemas, each with one field filled.\<close>

definition sample_detail :: pydict where
  "sample_detail = setitem ''category'' (Str (u ''Tecnologia, \"IT\"'')) (empty_record CSV_FIELDS)"

definition sample_listing :: pydict where
  "sample_listing = setitem ''title'' (Str (u ''Desarrollador'')) (empty_record quickview_fieldnames)"

section \<open>Dictionaries and blocks\<close>


lemma keys_setitem: "set (keys (setitem k v d)) = insert k (set (keys d))"
  using AList.dom_update[of k v d] by (simp add: keys_def setitem_def)

lemma get_setitem: "get (setitem k v d) k' dflt = (if k' = k then v else get d k' dflt)"
  by (simp add: get_def setitem_def update_conv')

lemma item_setitem: "item (setitem k v d) k' = (if k' = k then v else item d k')"
  by (simp add: item_def get_setitem)

lemma map_of_fold_empty:
  "map_of (fold (\<lambda>k d. setitem k (Str []) d) names d0) k
     = (if k \<in> set names then Some (Str []) else map_of d0 k)"
  by (induction names arbitrary: d0) (auto simp: setitem_def update_conv')

lemma keys_fold_empty:
  "set (keys (fold (\<lambda>k d. setitem k (Str []) d) names d0)) = set (keys d0) \<union> set names"
  by (induction names arbitrary: d0) (auto simp: keys_setitem)

lemma keys_empty_record: "set (keys (empty_record names)) = set names"
proof -
  have "set (keys []) = {}" by (simp add: keys_def)
  then show ?thesis
    using keys_fold_empty[of names "[]"] by (simp add: empty_record_def)
qed

lemma get_empty_record:
  "get (empty_record names) k dflt = (if k \<in> set names then Str [] else dflt)"
  by (simp add: empty_record_def get_def map_of_fold_empty)

lemma keys_ensure_fields: "set (keys (ensure_fields names j)) = set (keys j) \<union> set names"
  unfolding ensure_fields_def
  by (induction names arbitrary: j) (auto simp: keys_setitem)

lemma setitem_keeps_keys: "k \<in> S \<Longrightarrow> set (keys d) = S \<Longrightarrow> set (keys (setitem k v d)) = S"
  by (auto simp: keys_setitem)

lemma fold_blocks_inv:
  assumes "\<And>b j. b \<in> set blocks \<Longrightarrow> P j \<Longrightarrow> P (b j)" and "P j"
  shows "P (fold (\<lambda>block j. block j) blocks j)"
  using assms by (induction blocks arbitrary: j) auto

lemma run_blocks_inv:
  assumes "\<And>b j. b \<in> set blocks \<Longrightarrow> P j \<Longrightarrow> P (b j)" and "P j"
  shows "P (run_blocks raised blocks j)"
proof (cases raised)
  case None
  then show ?thesis using fold_blocks_inv[of blocks P j] assms by (simp add: run_blocks_def)
next
  case (Some n)
  have "\<And>b j. b \<in> set (take n blocks) \<Longrightarrow> P j \<Longrightarrow> P (b j)"
    using assms(1) by (meson in_set_takeD)
  then show ?thesis using fold_blocks_inv[of "take n blocks" P j] assms(2) Some
    by (simp add: run_blocks_def)
qed








lemma empty_record_items: "k \<in> set names \<Longrightarrow> item (empty_record names) k = Str []"
  by (simp add: item_def get_empty_record)



lemma item_assign_found:
  "item (assign_found k found j) k' =
     (if k' = k then (case found of Some t \<Rightarrow> Str t | None \<Rightarrow> item j k') else item j k')"
  by (simp add: assign_found_def item_setitem split: option.splits)

section \<open>The library instance on examples\<close>









lemma dev_lines:
  "stripped_lines ascii_lib dev_text
     = [u ''Desarrollador'', u ''Acme'', u ''Heredia'', 8353 # u ''450,000 mensual'']"
  by (simp add: dev_text_def stripped_lines_def strip_def ascii_lib_def ascii_isspace_def u_def)




lemma dev_salary_found:
  "first_where (card_salary_line ascii_lib) [u ''Desarrollador'', u ''Acme'', u ''Heredia'', 8353 # u ''450,000 mensual'']
     = Some (8353 # u ''450,000 mensual'')"
  by (simp add: first_where_def card_salary_line_def ascii_lib_def ascii_lower_def u_def)

lemma dev_salary:
  "item (the (elempleo_card ascii_lib dev_card)) ''salary'' = Str (8353 # u ''450,000 mensual'')"
  by (simp add: elempleo_card_def dev_card_def dev_lines dev_salary_found Let_def item_setitem
      split: option.splits)



lemma cascade_nothing: "locate_text m = (\<lambda>sel. None) \<Longrightarrow> cascade L accept m sels = None"
  by (induction sels) auto

lemma text_only_modal: "pick_modal text_only_page = body text_only_page"
  by (simp add: pick_modal_def modal_selectors_def text_only_page_def)

lemma convenir_modal: "pick_modal convenir_page = body convenir_page"
  by (simp add: pick_modal_def modal_selectors_def convenir_page_def)

lemma dev_salary_line:
  "first_where (salary_line ascii_lib) (stripped_lines ascii_lib dev_text) = Some (8353 # u ''450,000 mensual'')"
  unfolding dev_lines
  by (simp add: first_where_def salary_line_def money_mark_def ascii_lib_def ascii_lower_def
      ascii_isdigit_def u_def)

lemma convenir_lines:
  "stripped_lines ascii_lib convenir_text = [u ''Desarrollador'', u ''Pago en $ a convenir'']"
  by (simp add: convenir_text_def stripped_lines_def strip_def ascii_lib_def ascii_isspace_def u_def)

lemma convenir_no_salary_line:
  "first_where (salary_line ascii_lib) [u ''Desarrollador'', u ''Pago en $ a convenir''] = None"
  by (simp add: first_where_def salary_line_def money_mark_def ascii_lib_def ascii_lower_def
      ascii_isdigit_def u_def)

lemma convenir_mark: "money_mark ascii_lib (u ''Pago en $ a convenir'')"
  by (simp add: money_mark_def u_def)

lemma confidential_lines:
  "stripped_lines ascii_lib confidential_text = [u ''Desarrollador'', u ''Acme'', u ''Salario confidencial'']"
  by (simp add: confidential_text_def stripped_lines_def strip_def ascii_lib_def ascii_isspace_def u_def)

lemma confidential_mark: "money_mark ascii_lib (u ''Salario confidencial'')"
  by (simp add: money_mark_def ascii_lib_def ascii_lower_def u_def)

lemma confidential_no_card_line:
  "first_where (card_salary_line ascii_lib) [u ''Desarrollador'', u ''Acme'', u ''Salario confidencial''] = None"
  by (simp add: first_where_def card_salary_line_def ascii_lib_def ascii_lower_def u_def)

lemma init_job_salary: "item (init_job site) ''salary'' = Str []"
  by (simp add: init_job_def Let_def item_setitem empty_record_items FIELDS_def)

lemma confidential_record:
  "elempleo_card ascii_lib confidential_card \<noteq> None \<and>
   item (the (elempleo_card ascii_lib confidential_card)) ''salary'' = Str []"
  by (simp add: elempleo_card_def confidential_card_def confidential_lines confidential_no_card_line
      Let_def item_setitem init_job_salary split: option.splits)

section \<open>Saving nothing\<close>

text \<open>
  C10. Every \<open>save_to_csv\<close> called with an empty record list returns at once, with
  \<open>None\<close>, and leaves the file system as it was: no file is created, written or
  changed, so a run without records leaves no CSV file behind.
\<close>

theorem save_to_csv_empty_no_file:
  "save_to_csv_quickview fs [] filename = (fs, None) \<and>
   save_to_csv_simple fs [] filename = (fs, None) \<and>
   save_to_csv_combined fs [] filename = (fs, None) \<and>
   save_to_csv_full stamp fs [] ofilename = (fs, None) \<and>
   save_to_csv_api stamp fs [] = (fs, None)"
  by (simp add: save_to_csv_quickview_def save_to_csv_simple_def save_to_csv_combined_def
      save_to_csv_full_def save_to_csv_api_def)


lemma writerows_ok:
  "\<forall>r\<in>set rs. set (keys r) \<subseteq> set fieldnames \<Longrightarrow>
   writerows fieldnames rs written = (written @ map (row_cells fieldnames) rs, None)"
proof (induction rs arbitrary: written)
  case Nil
  show ?case by simp
next
  case (Cons r rs)
  have "dict_to_list fieldnames r = Inr (row_cells fieldnames r)"
    using Cons.prems by (auto simp: dict_to_list_def row_cells_def list_ex_iff)
  then show ?case using Cons by simp
qed

lemma write_csv_ok:
  "\<forall>r\<in>set jobs. set (keys r) \<subseteq> set fieldnames \<Longrightarrow> \<not> unwritable fs filename \<Longrightarrow>
   write_csv fs filename enc fieldnames jobs =
     (fs\<lparr>files := (files fs)(filename \<mapsto>
           \<lparr>encoding = enc, rows = map u fieldnames # map (row_cells fieldnames) jobs\<rparr>)\<rparr>, None)"
  by (simp add: write_csv_def writerows_ok)




lemma is_str_iff: "is_str v = (\<exists>s. v = Str s)"
  by (cases v) simp_all

lemma job_record_iff:
  "job_record fieldnames j =
     (set (keys j) = set fieldnames \<and> (\<forall>k\<in>set fieldnames. \<exists>s. item j k = Str s))"
  by (simp add: job_record_def list_all_iff is_str_iff)

lemma reads_back_iff:
  "reads_back fieldnames jobs f =
     (rows f \<noteq> [] \<and> hd (rows f) = map u fieldnames \<and>
      length (read_rows f) = length jobs \<and>
      (\<forall>r\<in>set (rows f). length r = length fieldnames) \<and>
      (\<forall>i<length jobs. \<forall>k\<in>set fieldnames.
          map_of (read_rows f ! i) (u k) = Some (text_of (item (jobs ! i) k))))"
  by (auto simp: reads_back_def list_all_iff list_all2_conv_all_nth)

lemma u_inj: "u a = u b \<Longrightarrow> a = b"
proof -
  have "inj (of_char :: char \<Rightarrow> nat)" by (rule injI) simp
  then have "inj (map (of_char :: char \<Rightarrow> nat))" by simp
  then show "u a = u b \<Longrightarrow> a = b" by (simp add: u_def inj_def)
qed

lemma map_of_zip_cells:
  "distinct ks \<Longrightarrow> k \<in> set ks \<Longrightarrow> map_of (zip (map u ks) (map g ks)) (u k) = Some (g k)"
proof (induction ks)
  case Nil
  then show ?case by simp
next
  case (Cons a ks)
  then show ?case by (auto dest: u_inj)
qed

lemma ensure_fields_same: "set names \<subseteq> set (keys j) \<Longrightarrow> ensure_fields names j = j"
  unfolding ensure_fields_def by (induction names) auto

lemma str_of_text: "item j k = Str s \<Longrightarrow> str_of (get j k (Str [])) = text_of (item j k)"
  by (auto simp: item_def get_def split: option.splits)

lemma write_csv_reads_back:
  assumes "distinct fieldnames" and "\<forall>j\<in>set jobs. job_record fieldnames j"
    and "\<not> unwritable fs filename"
  shows "\<exists>f. write_csv fs filename enc fieldnames jobs = (fs\<lparr>files := (files fs)(filename \<mapsto> f)\<rparr>, None)
             \<and> encoding f = enc \<and> reads_back fieldnames jobs f"
proof -
  let ?f = "\<lparr>encoding = enc, rows = map u fieldnames # map (row_cells fieldnames) jobs\<rparr>"
  have k: "\<forall>r\<in>set jobs. set (keys r) \<subseteq> set fieldnames"
    using assms(2) by (simp add: job_record_iff)
  have w: "write_csv fs filename enc fieldnames jobs = (fs\<lparr>files := (files fs)(filename \<mapsto> ?f)\<rparr>, None)"
    by (rule write_csv_ok[OF k assms(3)])
  have cells: "map_of (read_rows ?f ! i) (u k) = Some (text_of (item (jobs ! i) k))"
    if i: "i < length jobs" and kk: "k \<in> set fieldnames" for i k
  proof -
    have j: "job_record fieldnames (jobs ! i)" using assms(2) i by simp
    then obtain s where s: "item (jobs ! i) k = Str s" using kk by (auto simp: job_record_iff)
    have "read_rows ?f ! i = zip (map u fieldnames) (row_cells fieldnames (jobs ! i))"
      using i by (simp add: read_rows_def)
    then show ?thesis
      using map_of_zip_cells[OF assms(1) kk, of "\<lambda>k. str_of (get (jobs ! i) k (Str []))"]
        str_of_text[OF s]
      by (simp add: row_cells_def)
  qed
  have "reads_back fieldnames jobs ?f"
    using cells by (auto simp: reads_back_iff read_rows_def row_cells_def)
  then show ?thesis using w by (intro exI[of _ ?f]) simp
qed

lemma distinct_CSV_FIELDS: "distinct CSV_FIELDS"
  by (simp add: CSV_FIELDS_def)

lemma distinct_quickview: "distinct quickview_fieldnames"
  by (simp add: quickview_fieldnames_def)

lemma distinct_FIELDS: "distinct FIELDS"
  by (simp add: FIELDS_def)

section \<open>Properties of identifier discovery\<close>

lemma add_job_ids_idem: "add_job_ids (add_job_ids ids btns) btns = add_job_ids ids btns"
  by (auto simp: add_job_ids_def)

lemma add_job_ids_mono: "ids \<subseteq> add_job_ids ids btns"
  by (auto simp: add_job_ids_def)

lemma add_job_ids_finite: "finite ids \<Longrightarrow> finite (add_job_ids ids btns)"
  by (simp add: add_job_ids_def)

lemma auto_loop_mono: "ids \<subseteq> job_ids (auto_loop L pgs M pn ids)"
proof (induction L pgs M pn ids rule: auto_loop.induct)
  case (1 L pgs M pn ids)
  show ?case
  proof (cases "page_ok L (pgs pn) \<and> \<not> pn + 1 > M")
    case True
    then have "auto_loop L pgs M pn ids = auto_loop L pgs M (pn + 1) (add_job_ids ids (buttons (pgs pn)))"
      by (subst auto_loop.simps) (simp add: page_ok_def Let_def)
    moreover have "add_job_ids ids (buttons (pgs pn)) \<subseteq> job_ids (auto_loop L pgs M (pn + 1) (add_job_ids ids (buttons (pgs pn))))"
      using True "1.IH"[OF refl _ refl] by (simp add: page_ok_def)
    ultimately show ?thesis using add_job_ids_mono[of ids "buttons (pgs pn)"] by auto
  next
    case False
    then show ?thesis
      using add_job_ids_mono[of ids "buttons (pgs pn)"]
      by (subst auto_loop.simps) (auto simp: page_ok_def Let_def)
  qed
qed

lemma auto_loop_finite: "finite ids \<Longrightarrow> finite (job_ids (auto_loop L pgs M pn ids))"
proof (induction L pgs M pn ids rule: auto_loop.induct)
  case (1 L pgs M pn ids)
  show ?case
  proof (cases "page_ok L (pgs pn) \<and> \<not> pn + 1 > M")
    case True
    then have "auto_loop L pgs M pn ids = auto_loop L pgs M (pn + 1) (add_job_ids ids (buttons (pgs pn)))"
      by (subst auto_loop.simps) (simp add: page_ok_def Let_def)
    moreover have "finite (job_ids (auto_loop L pgs M (pn + 1) (add_job_ids ids (buttons (pgs pn)))))"
      using True "1.IH"[OF refl _ refl] "1.prems" by (simp add: page_ok_def add_job_ids_finite)
    ultimately show ?thesis by simp
  next
    case False
    then show ?thesis
      using "1.prems" add_job_ids_finite[of ids "buttons (pgs pn)"]
      by (subst auto_loop.simps) (auto simp: page_ok_def Let_def)
  qed
qed





lemma add_scrolled_ids_idem: "add_scrolled_ids (add_scrolled_ids ids btns) btns = add_scrolled_ids ids btns"
  by (auto simp: add_scrolled_ids_def)

lemma scroll_loop_mono: "ids \<subseteq> fst (scroll_loop snaps scrolls (ids, k))"
proof (induction scrolls arbitrary: ids k)
  case Nil
  show ?case by simp
next
  case (Cons scroll rest)
  show ?case
  proof (cases "snaps scroll")
    case None
    then show ?thesis by simp
  next
    case (Some btns)
    have "ids \<subseteq> add_scrolled_ids ids btns" by (auto simp: add_scrolled_ids_def)
    also have "\<dots> \<subseteq> fst (scroll_loop snaps rest (add_scrolled_ids ids btns, Suc k))"
      by (rule Cons.IH)
    finally show ?thesis using Some by simp
  qed
qed

lemma scroll_loop_finite: "finite ids \<Longrightarrow> finite (fst (scroll_loop snaps scrolls (ids, k)))"
  by (induction scrolls arbitrary: ids k) (auto simp: add_scrolled_ids_def split: option.splits)



lemma length_upto_nat: "length [1..m] = nat m"
  by simp

text \<open>
  C9. Identifier collection is idempotent and the identifier set only grows. Adding the
  identifiers of the same snapshot a second time leaves the size of the accumulated set
  unchanged, for the paginating collector (\<open>add_job_ids\<close>) and for the scrolling one
  (\<open>add_scrolled_ids\<close>). From any iteration of either loop on, with \<open>ids\<close> the set
  accumulated so far, the set the loop ends with contains \<open>ids\<close> and is at least as
  large.
\<close>

theorem identifier_set_idempotent_monotone:
  "finite ids \<Longrightarrow>
     card (add_job_ids (add_job_ids ids btns) btns) = card (add_job_ids ids btns) \<and>
     card (add_scrolled_ids (add_scrolled_ids ids btns) btns) = card (add_scrolled_ids ids btns) \<and>
     ids \<subseteq> job_ids (auto_loop L pgs max_pages pn ids) \<and>
     card ids \<le> card (job_ids (auto_loop L pgs max_pages pn ids)) \<and>
     ids \<subseteq> fst (scroll_loop snaps scrolls (ids, k)) \<and>
     card ids \<le> card (fst (scroll_loop snaps scrolls (ids, k)))"
proof -
  assume fin: "finite ids"
  have a: "card ids \<le> card (job_ids (auto_loop L pgs max_pages pn ids))"
    by (rule card_mono[OF auto_loop_finite[OF fin] auto_loop_mono])
  have b: "card ids \<le> card (fst (scroll_loop snaps scrolls (ids, k)))"
    by (rule card_mono[OF scroll_loop_finite[OF fin] scroll_loop_mono])
  show ?thesis
    using a b auto_loop_mono[of ids L pgs max_pages pn] scroll_loop_mono[of ids snaps scrolls k]
    by (simp add: add_job_ids_idem add_scrolled_ids_idem)
qed

theorem identifier_set_idempotent_monotone_witness:
  "card (add_job_ids (add_job_ids {u ''101''} [u ''101'', u ''102'']) [u ''101'', u ''102''])
     = card (add_job_ids {u ''101''} [u ''101'', u ''102'']) \<and>
   card (add_job_ids {u ''101''} [u ''101'', u ''102'']) = 2 \<and>
   {u ''101''} \<subseteq> job_ids (auto_loop ascii_lib (pages same_browser) 3 1 {u ''101''})"
proof -
  have fin: "finite {u ''101''}" by simp
  have "add_job_ids {u ''101''} [u ''101'', u ''102''] = {u ''101'', u ''102''}"
    by (auto simp: add_job_ids_def u_def)
  then have c: "card (add_job_ids {u ''101''} [u ''101'', u ''102'']) = 2"
    by (simp add: u_def)
  show ?thesis
    using identifier_set_idempotent_monotone[OF fin, of "[u ''101'', u ''102'']" ascii_lib "pages same_browser" 3 1] c
    by simp
qed








section \<open>Properties of card collection\<close>


lemma assign_found_keys:
  "k \<in> S \<Longrightarrow> set (keys d) = S \<Longrightarrow> set (keys (assign_found k found d)) = S"
  by (auto simp: assign_found_def keys_setitem split: option.splits)

lemma fields_mem:
  "''source_site'' \<in> set FIELDS" "''title'' \<in> set FIELDS" "''company'' \<in> set FIELDS"
  "''featured'' \<in> set FIELDS" "''filled'' \<in> set FIELDS" "''urgent'' \<in> set FIELDS"
  "''location'' \<in> set FIELDS" "''salary'' \<in> set FIELDS" "''experience'' \<in> set FIELDS"
  "''url'' \<in> set FIELDS" "''apply_type'' \<in> set FIELDS" "''apply_email'' \<in> set FIELDS"
  by (simp_all add: FIELDS_def)

lemma quickview_mem:
  "''title'' \<in> set quickview_fieldnames" "''company'' \<in> set quickview_fieldnames"
  "''location'' \<in> set quickview_fieldnames" "''description'' \<in> set quickview_fieldnames"
  "''salary'' \<in> set quickview_fieldnames" "''posting_date'' \<in> set quickview_fieldnames"
  "''url'' \<in> set quickview_fieldnames"
  by (simp_all add: quickview_fieldnames_def)

lemma init_job_keys: "set (keys (init_job site)) = set FIELDS"
  using fields_mem by (simp add: init_job_def Let_def keys_setitem keys_empty_record insert_absorb)

lemma elempleo_card_keys: "elempleo_card L c = Some job \<Longrightarrow> set (keys job) = set FIELDS"
proof -
  assume a: "elempleo_card L c = Some job"
  have m: "\<And>k v d. k \<in> set FIELDS \<Longrightarrow> set (keys d) = set FIELDS \<Longrightarrow> set (keys (setitem k v d)) = set FIELDS"
    by (rule setitem_keeps_keys)
  show ?thesis
    using a m fields_mem init_job_keys[of "u ''elempleo.com''"]
    by (auto simp: elempleo_card_def Let_def split: option.splits if_splits)
qed

lemma parse_job_card_keys: "set (keys (parse_job_card c)) = set quickview_fieldnames"
proof -
  have m: "\<And>k v d. k \<in> set quickview_fieldnames \<Longrightarrow> set (keys d) = set quickview_fieldnames
      \<Longrightarrow> set (keys (setitem k v d)) = set quickview_fieldnames"
    by (rule setitem_keeps_keys)
  show ?thesis
    using m quickview_mem keys_empty_record[of quickview_fieldnames]
    by (simp add: parse_job_card_def Let_def split: option.splits)
qed



lemma find_elements_debug_first:
  assumes "\<forall>s\<in>set pre. locator page (join_selectors s) = None \<or> locator page (join_selectors s) = Some []"
    and "locator page (join_selectors s0) = Some found" and "found \<noteq> []"
  shows "find_elements_debug page (pre @ s0 # post) = found"
  using assms by (induction pre) auto

lemma find_elements_debug_none:
  "\<forall>s\<in>set sets. locator page (join_selectors s) = None \<or> locator page (join_selectors s) = Some []
   \<Longrightarrow> find_elements_debug page sets = []"
  by (induction sets) auto

lemma first_nonempty_first:
  "\<forall>s\<in>set pre. f s = [] \<Longrightarrow> f s0 \<noteq> [] \<Longrightarrow> first_nonempty f (pre @ s0 # post) = f s0"
  by (induction pre) auto

lemma slice_to_nonneg: "0 \<le> n \<Longrightarrow> slice_to xs n = take (nat n) xs"
  by (simp add: slice_to_def)

lemma card_loop_filter:
  "card_loop extract cs jobs = jobs @ filter (\<lambda>j. truthy (item j ''title'')) (List.map_filter extract cs)"
  by (induction cs arbitrary: jobs) (auto simp: List.map_filter_simps split: option.splits)

lemma map_filter_length: "length (List.map_filter f xs) \<le> length xs"
  by (induction xs) (auto simp: List.map_filter_simps split: option.splits)

lemma card_loop_length: "length (card_loop extract cs jobs) \<le> length jobs + length cs"
proof -
  have "length (filter (\<lambda>j. truthy (item j ''title'')) (List.map_filter extract cs)) \<le> length (List.map_filter extract cs)"
    by (rule length_filter_le)
  also have "\<dots> \<le> length cs" by (rule map_filter_length)
  finally show ?thesis by (simp add: card_loop_filter)
qed

lemma scrape_elempleo_cards:
  "nav_ok page \<Longrightarrow>
   scrape_elempleo L page max_jobs jobs = card_loop (elempleo_card L) (delegated_cards page max_jobs) jobs"
  by (simp add: scrape_elempleo_def delegated_cards_def slice_to_def)

text \<open>
  C2. The card selectors are tried in the order declared. When every strategy before
  \<open>s0\<close> raises or matches nothing and \<open>s0\<close> matches at least one element, the
  cascade returns the elements of \<open>s0\<close>, whatever the strategies after it would
  match. Of these, \<open>scrape_elempleo\<close> hands the first \<open>max_jobs\<close> to extraction, so at
  most \<open>max_jobs\<close> cards are extracted and at most \<open>max_jobs\<close> records appended
  (\<open>max_jobs\<close> a count, not negative). The \<open>or\<close> chain of the simple scraper picks the
  first selector with a non-empty result in the same way; that scraper has no card
  limit and parses every card of the chosen result.
\<close>

theorem first_matching_strategy_wins:
  "\<forall>s\<in>set pre. locator page (join_selectors s) = None \<or> locator page (join_selectors s) = Some [] \<Longrightarrow>
   locator page (join_selectors s0) = Some found \<Longrightarrow> found \<noteq> [] \<Longrightarrow> 0 \<le> max_jobs \<Longrightarrow>
   find_elements_debug page (pre @ s0 # post) = found \<and>
   (elempleo_selector_sets = pre @ s0 # post \<longrightarrow>
      delegated_cards page max_jobs = take (nat max_jobs) found \<and>
      int (length (delegated_cards page max_jobs)) \<le> max_jobs \<and>
      (nav_ok page \<longrightarrow>
         scrape_elempleo L page max_jobs jobs
           = card_loop (elempleo_card L) (take (nat max_jobs) found) jobs \<and>
         int (length (scrape_elempleo L page max_jobs jobs)) \<le> int (length jobs) + max_jobs)) \<and>
   ((\<forall>s\<in>set spre. select_all lsoup s = []) \<and> select_all lsoup t \<noteq> [] \<longrightarrow>
      first_nonempty (select_all lsoup) (spre @ t # spost) = select_all lsoup t)"
proof -
  assume a: "\<forall>s\<in>set pre. locator page (join_selectors s) = None \<or> locator page (join_selectors s) = Some []"
    and b: "locator page (join_selectors s0) = Some found" and c: "found \<noteq> []" and d: "0 \<le> max_jobs"
  have f: "find_elements_debug page (pre @ s0 # post) = found"
    by (rule find_elements_debug_first[OF a b c])
  have g: "elempleo_selector_sets = pre @ s0 # post \<Longrightarrow> delegated_cards page max_jobs = take (nat max_jobs) found"
    using f d by (simp add: delegated_cards_def slice_to_nonneg)
  have h: "elempleo_selector_sets = pre @ s0 # post \<Longrightarrow> int (length (delegated_cards page max_jobs)) \<le> max_jobs"
    using g d by simp
  have i: "elempleo_selector_sets = pre @ s0 # post \<Longrightarrow> nav_ok page \<Longrightarrow>
      scrape_elempleo L page max_jobs jobs = card_loop (elempleo_card L) (take (nat max_jobs) found) jobs"
    using g scrape_elempleo_cards[of page L max_jobs jobs] by simp
  have j: "elempleo_selector_sets = pre @ s0 # post \<Longrightarrow> nav_ok page \<Longrightarrow>
      int (length (scrape_elempleo L page max_jobs jobs)) \<le> int (length jobs) + max_jobs"
    using i card_loop_length[of "elempleo_card L" "take (nat max_jobs) found" jobs] d by simp
  show ?thesis
    using f g h i j first_nonempty_first[of spre "select_all lsoup" t spost] by blast
qed

lemma article_sets: "elempleo_selector_sets = [[''.js-joboffer-result'']] @ [''article''] # 
    [[''[class*=\"result\"]''], [''[class*=\"offer\"]''], [''[class*=\"job\"]''], [''div[class*=\"item\"]'']]"
  by (simp add: elempleo_selector_sets_def)

theorem first_matching_strategy_wins_witness:
  "find_elements_debug article_page elempleo_selector_sets = [dev_card, one_line_card] \<and>
   locator article_page ''[class*=\"result\"]'' = Some [one_line_card] \<and>
   delegated_cards article_page 1 = [dev_card]"
proof -
  have a: "\<forall>s\<in>set [[''.js-joboffer-result'']]. locator article_page (join_selectors s) = None
            \<or> locator article_page (join_selectors s) = Some []"
    by (simp add: article_page_def)
  have b: "locator article_page (join_selectors [''article'']) = Some [dev_card, one_line_card]"
    by (simp add: article_page_def)
  have c: "[dev_card, one_line_card] \<noteq> []" by simp
  have d: "(0::int) \<le> 1" by simp
  note A = first_matching_strategy_wins[OF a b c d, of
      "[[''[class*=\"result\"]''], [''[class*=\"offer\"]''], [''[class*=\"job\"]''], [''div[class*=\"item\"]'']]"]
  have a1: "find_elements_debug article_page elempleo_selector_sets = [dev_card, one_line_card]"
    unfolding article_sets using A by blast
  have a2: "delegated_cards article_page 1 = take (nat 1) [dev_card, one_line_card]"
    using A article_sets by blast
  have a3: "locator article_page ''[class*=\"result\"]'' = Some [one_line_card]"
    by (simp add: article_page_def)
  show ?thesis using a1 a2 a3 by simp
qed

section \<open>Properties of quick-view extraction\<close>

lemma selector_pass_keys: "set (keys (selector_pass L m)) = set quickview_fieldnames"
proof -
  have m: "\<And>k v d. k \<in> set quickview_fieldnames \<Longrightarrow> set (keys d) = set quickview_fieldnames
      \<Longrightarrow> set (keys (setitem k v d)) = set quickview_fieldnames"
    by (rule setitem_keeps_keys)
  have a: "\<And>k f d. k \<in> set quickview_fieldnames \<Longrightarrow> set (keys d) = set quickview_fieldnames
      \<Longrightarrow> set (keys (assign_found k f d)) = set quickview_fieldnames"
    by (rule assign_found_keys)
  show ?thesis
    using m a quickview_mem keys_empty_record[of quickview_fieldnames]
    by (simp add: selector_pass_def Let_def split: option.splits)
qed

lemma text_pass_keys:
  "set (keys job) = set quickview_fieldnames \<Longrightarrow> set (keys (text_pass L m job)) = set quickview_fieldnames"
proof -
  assume k: "set (keys job) = set quickview_fieldnames"
  have a: "\<And>k f d. k \<in> set quickview_fieldnames \<Longrightarrow> set (keys d) = set quickview_fieldnames
      \<Longrightarrow> set (keys (assign_found k f d)) = set quickview_fieldnames"
    by (rule assign_found_keys)
  show ?thesis
    using k a quickview_mem
    by (simp add: text_pass_def Let_def split: option.splits)
qed

lemma extract_from_quick_view_keys:
  "set (keys (extract_from_quick_view L pg)) = set quickview_fieldnames"
  by (simp add: extract_from_quick_view_def Let_def selector_pass_keys text_pass_keys)


lemma cascade_accept: "cascade L accept m sels = Some t \<Longrightarrow> accept t"
  by (induction sels) (auto split: option.splits if_splits)

lemma selector_pass_salary:
  "item (selector_pass L m) ''salary''
     = (case cascade L (salary_ok L) m salary_selectors of Some t \<Rightarrow> Str t | None \<Rightarrow> Str [])"
  by (simp add: selector_pass_def Let_def item_assign_found item_setitem empty_record_items
      quickview_fieldnames_def split: option.splits)

lemma selector_pass_company:
  "item (selector_pass L m) ''company''
     = (case cascade L company_ok m company_selectors of Some t \<Rightarrow> Str t | None \<Rightarrow> Str [])"
  by (simp add: selector_pass_def Let_def item_assign_found item_setitem empty_record_items
      quickview_fieldnames_def split: option.splits)

lemma selector_pass_location:
  "item (selector_pass L m) ''location''
     = (case cascade L location_ok m location_selectors of Some t \<Rightarrow> Str t | None \<Rightarrow> Str [])"
  by (simp add: selector_pass_def Let_def item_assign_found item_setitem empty_record_items
      quickview_fieldnames_def split: option.splits)

lemma text_pass_entered:
  "(\<not> truthy (item (selector_pass L m) ''company'') \<or> \<not> truthy (item (selector_pass L m) ''location''))
     = (cascade L company_ok m company_selectors = None \<or> cascade L location_ok m location_selectors = None)"
  using cascade_accept[of L company_ok m company_selectors]
    cascade_accept[of L location_ok m location_selectors]
  by (auto simp: selector_pass_company selector_pass_location company_ok_def location_ok_def
      split: option.splits)

lemma text_pass_salary:
  "modal_text m = Some txt \<Longrightarrow> \<not> truthy (item job ''salary'') \<Longrightarrow>
   item (text_pass L m job) ''salary''
     = (case first_where (salary_line L) (stripped_lines L txt) of
          Some line \<Rightarrow> Str line | None \<Rightarrow> item job ''salary'')"
  by (simp add: text_pass_def Let_def item_assign_found split: option.splits)

lemma text_pass_salary_kept:
  "truthy (item job ''salary'') \<Longrightarrow> item (text_pass L m job) ''salary'' = item job ''salary''"
  by (simp add: text_pass_def Let_def item_assign_found split: option.splits)

lemma quick_view_salary_fallback:
  assumes "cascade L (salary_ok L) (pick_modal pg) salary_selectors = None"
    and "cascade L company_ok (pick_modal pg) company_selectors = None \<or>
         cascade L location_ok (pick_modal pg) location_selectors = None"
    and "modal_text (pick_modal pg) = Some txt"
    and "first_where (salary_line L) (stripped_lines L txt) = Some line"
  shows "item (extract_from_quick_view L pg) ''salary'' = Str line"
proof -
  have e: "\<not> truthy (item (selector_pass L (pick_modal pg)) ''company'') \<or>
           \<not> truthy (item (selector_pass L (pick_modal pg)) ''location'')"
    using assms(2) text_pass_entered[of L "pick_modal pg"] by blast
  have s: "\<not> truthy (item (selector_pass L (pick_modal pg)) ''salary'')"
    using assms(1) by (simp add: selector_pass_salary)
  show ?thesis
    using e text_pass_salary[OF assms(3) s, of L] assms(4)
    by (auto simp: extract_from_quick_view_def Let_def)
qed

lemma quick_view_salary_gate:
  assumes "cascade L (salary_ok L) (pick_modal pg) salary_selectors = None"
    and "cascade L company_ok (pick_modal pg) company_selectors \<noteq> None"
    and "cascade L location_ok (pick_modal pg) location_selectors \<noteq> None"
  shows "item (extract_from_quick_view L pg) ''salary'' = Str []"
proof -
  have e: "\<not> (\<not> truthy (item (selector_pass L (pick_modal pg)) ''company'') \<or>
           \<not> truthy (item (selector_pass L (pick_modal pg)) ''location''))"
    using assms(2,3) text_pass_entered[of L "pick_modal pg"] by metis
  show ?thesis
    using e assms(1) by (auto simp: extract_from_quick_view_def Let_def selector_pass_salary)
qed

lemma first_where_first:
  "first_where P xs = Some x \<Longrightarrow>
   \<exists>i<length xs. xs ! i = x \<and> P x \<and> (\<forall>j<i. \<not> P (xs ! j))"
  by (auto simp: first_where_def find_Some_iff)

lemma elempleo_card_salary:
  assumes "card_text c = Some txt" and "length (stripped_lines L txt) \<ge> 2"
    and "first_where (card_salary_line L) (stripped_lines L txt) = Some line"
  shows "elempleo_card L c \<noteq> None \<and> item (the (elempleo_card L c)) ''salary'' = Str line"
  using assms
  by (simp add: elempleo_card_def Let_def item_setitem split: option.splits)


text \<open>
  C5, as the code has it. In \<open>_extract_from_quick_view\<close>, when every salary selector
  fails, the full-text pass is entered (the company or the location is still missing
  after the selector pass) and \<open>inner_text\<close> returns, the salary is the first of
  the non-empty stripped lines that bears a money mark (colon sign, dollar sign or
  \<open>confidencial\<close>) and also holds a digit or says \<open>confidencial\<close>. In the card loop of
  \<open>scrape_elempleo\<close>, which has no salary selector, a card of at least two lines gets
  as salary its first line with a colon sign, a dollar sign or \<open>colones\<close>.
\<close>

theorem salary_from_text_fallback:
  "cascade L (salary_ok L) (pick_modal pg) salary_selectors = None \<Longrightarrow>
   cascade L company_ok (pick_modal pg) company_selectors = None \<or>
     cascade L location_ok (pick_modal pg) location_selectors = None \<Longrightarrow>
   modal_text (pick_modal pg) = Some txt \<Longrightarrow>
   first_where (salary_line L) (stripped_lines L txt) = Some line \<Longrightarrow>
   item (extract_from_quick_view L pg) ''salary'' = Str line \<and>
   (\<exists>i<length (stripped_lines L txt).
       stripped_lines L txt ! i = line \<and> salary_line L line \<and>
       (\<forall>j<i. \<not> salary_line L (stripped_lines L txt ! j))) \<and>
   (card_text c = Some ctxt \<and> length (stripped_lines L ctxt) \<ge> 2 \<and>
    first_where (card_salary_line L) (stripped_lines L ctxt) = Some cline \<longrightarrow>
      elempleo_card L c \<noteq> None \<and> item (the (elempleo_card L c)) ''salary'' = Str cline)"
  using quick_view_salary_fallback[of L pg "txt" line]
    first_where_first[of "salary_line L" "stripped_lines L txt" line]
    elempleo_card_salary[of c ctxt L cline]
  by blast

theorem salary_from_text_fallback_witness:
  "item (extract_from_quick_view ascii_lib text_only_page) ''salary'' = Str (8353 # u ''450,000 mensual'') \<and>
   item (the (elempleo_card ascii_lib dev_card)) ''salary'' = Str (8353 # u ''450,000 mensual'')"
proof -
  have l: "locate_text (pick_modal text_only_page) = (\<lambda>sel. None)"
    unfolding text_only_modal by (simp add: text_only_page_def)
  have a: "cascade ascii_lib (salary_ok ascii_lib) (pick_modal text_only_page) salary_selectors = None"
    by (rule cascade_nothing[OF l])
  have b: "cascade ascii_lib company_ok (pick_modal text_only_page) company_selectors = None \<or>
     cascade ascii_lib location_ok (pick_modal text_only_page) location_selectors = None"
    using cascade_nothing[OF l] by simp
  have c: "modal_text (pick_modal text_only_page) = Some dev_text"
    unfolding text_only_modal by (simp add: text_only_page_def)
  have d: "card_text dev_card = Some dev_text \<and> length (stripped_lines ascii_lib dev_text) \<ge> 2 \<and>
    first_where (card_salary_line ascii_lib) (stripped_lines ascii_lib dev_text) = Some (8353 # u ''450,000 mensual'')"
    unfolding dev_lines using dev_salary_found by (simp add: dev_card_def)
  note A = salary_from_text_fallback[OF a b c dev_salary_line, of dev_card dev_text "8353 # u ''450,000 mensual''"]
  show ?thesis using A d by blast
qed

text \<open>
  A modal on which no selector matches and whose text has the line
  \<open>Pago en $ a convenir\<close>: the line bears a dollar sign, and the salary stays empty,
  for it holds no digit. A listing card whose third line is \<open>Salario confidencial\<close>:
  the card loop does not know the word, and the salary stays empty.
\<close>

theorem salary_from_text_fallback_counterexample:
  "cascade ascii_lib (salary_ok ascii_lib) (pick_modal convenir_page) salary_selectors = None \<and>
   modal_text (pick_modal convenir_page) = Some convenir_text \<and>
   stripped_lines ascii_lib convenir_text = [u ''Desarrollador'', u ''Pago en $ a convenir''] \<and>
   money_mark ascii_lib (u ''Pago en $ a convenir'') \<and>
   item (extract_from_quick_view ascii_lib convenir_page) ''salary'' = Str [] \<and>
   stripped_lines ascii_lib confidential_text = [u ''Desarrollador'', u ''Acme'', u ''Salario confidencial''] \<and>
   money_mark ascii_lib (u ''Salario confidencial'') \<and>
   item (the (elempleo_card ascii_lib confidential_card)) ''salary'' = Str []"
proof -
  have l: "locate_text (pick_modal convenir_page) = (\<lambda>sel. None)"
    unfolding convenir_modal by (simp add: convenir_page_def)
  have a: "cascade ascii_lib (salary_ok ascii_lib) (pick_modal convenir_page) salary_selectors = None"
    by (rule cascade_nothing[OF l])
  have c: "modal_text (pick_modal convenir_page) = Some convenir_text"
    unfolding convenir_modal by (simp add: convenir_page_def)
  have s: "\<not> truthy (item (selector_pass ascii_lib (pick_modal convenir_page)) ''salary'')"
    "item (selector_pass ascii_lib (pick_modal convenir_page)) ''salary'' = Str []"
    using a by (simp_all add: selector_pass_salary)
  have t: "item (text_pass ascii_lib (pick_modal convenir_page) (selector_pass ascii_lib (pick_modal convenir_page))) ''salary'' = Str []"
    using text_pass_salary[OF c s(1), of ascii_lib] s(2) convenir_lines convenir_no_salary_line by simp
  have "item (extract_from_quick_view ascii_lib convenir_page) ''salary'' = Str []"
    using t s(2) by (simp add: extract_from_quick_view_def Let_def)
  then show ?thesis
    using a c convenir_lines convenir_mark confidential_lines confidential_mark confidential_record
    by blast
qed

section \<open>Properties of detail-page extraction\<close>

lemma details_block_keys:
  assumes "b \<in> set (details_blocks L today s)" and "set (keys j) = set HEADERS"
  shows "set (keys (b j)) = set HEADERS"
proof -
  have m: "\<And>k v d. k \<in> set HEADERS \<Longrightarrow> set (keys d) = set HEADERS \<Longrightarrow> set (keys (setitem k v d)) = set HEADERS"
    by (rule setitem_keeps_keys)
  have h: "''_job_featured_image'' \<in> set HEADERS" "''_job_title'' \<in> set HEADERS"
    "''_job_featured'' \<in> set HEADERS" "''_job_filled'' \<in> set HEADERS" "''_job_urgent'' \<in> set HEADERS"
    "''_job_description'' \<in> set HEADERS" "''_job_category'' \<in> set HEADERS" "''_job_type'' \<in> set HEADERS"
    "''_job_tag'' \<in> set HEADERS" "''_job_expiry_date'' \<in> set HEADERS" "''_job_gender'' \<in> set HEADERS"
    "''_job_apply_type'' \<in> set HEADERS" "''_job_apply_url'' \<in> set HEADERS" "''_job_apply_email'' \<in> set HEADERS"
    "''_job_salary_type'' \<in> set HEADERS" "''_job_salary'' \<in> set HEADERS" "''_job_max_salary'' \<in> set HEADERS"
    "''_job_experience'' \<in> set HEADERS" "''_job_career_level'' \<in> set HEADERS"
    "''_job_qualification'' \<in> set HEADERS" "''_job_video_url'' \<in> set HEADERS" "''_job_photos'' \<in> set HEADERS"
    "''_job_application_deadline_date'' \<in> set HEADERS" "''_job_address'' \<in> set HEADERS"
    "''_job_location'' \<in> set HEADERS" "''_job_map_location'' \<in> set HEADERS"
    by (simp_all add: HEADERS_def)
  from assms(1) consider "b = (\<lambda>job. job)" | "b = image_block s" | "b = description_block s"
    | "b = title_block s" | "b = type_block L s" | "b = salary_block L s" | "b = location_block s"
    | "b = dates_block L today" | "b = experience_block L s" | "b = qualification_block s"
    | "b = career_block s" | "b = contact_block L s" | "b = defaults_block"
    by (auto simp: details_blocks_def)
  then show ?thesis
  proof cases
    case 1 then show ?thesis using assms(2) by simp
  next
    case 2 then show ?thesis using assms(2) m h by (simp add: image_block_def split: option.splits)
  next
    case 3 then show ?thesis using assms(2) m h by (simp add: description_block_def split: option.splits)
  next
    case 4 then show ?thesis using assms(2) m h by (simp add: title_block_def Let_def)
  next
    case 5 then show ?thesis using assms(2) m h by (simp add: type_block_def)
  next
    case 6 then show ?thesis using assms(2) m h by (simp add: salary_block_def salary_numbers_def Let_def)
  next
    case 7 then show ?thesis using assms(2) m h by (simp add: location_block_def Let_def)
  next
    case 8 then show ?thesis using assms(2) m h by (simp add: dates_block_def Let_def)
  next
    case 9 then show ?thesis using assms(2) m h by (simp add: experience_block_def split: option.splits)
  next
    case 10 then show ?thesis using assms(2) m h by (simp add: qualification_block_def)
  next
    case 11 then show ?thesis using assms(2) m h by (simp add: career_block_def split: option.splits)
  next
    case 12 then show ?thesis using assms(2) m h by (simp add: contact_block_def Let_def split: option.splits)
  next
    case 13 then show ?thesis using assms(2) m h by (simp add: defaults_block_def Let_def)
  qed
qed

lemma get_job_details_keys: "set (keys (get_job_details L today pg)) = set HEADERS"
proof -
  have "set (keys (empty_record HEADERS)) = set HEADERS"
    by (rule keys_empty_record)
  then show ?thesis
    unfolding get_job_details_def
    using run_blocks_inv[of "details_blocks L today (soup pg)" "\<lambda>j. set (keys j) = set HEADERS"
        "empty_record HEADERS" "raised_at pg"] details_block_keys[of _ L today "soup pg"]
    by blast
qed



lemma empty_record_HEADERS:
  "empty_record HEADERS = map (\<lambda>k. (k, Str [])) HEADERS"
  by (simp add: empty_record_def HEADERS_def setitem_def)

lemma get_job_details_nav_raises:
  "raised_at pg = Some 0 \<Longrightarrow> get_job_details L today pg = empty_record HEADERS"
  by (simp add: get_job_details_def run_blocks_def)

lemma get_job_details_nothing:
  assumes "raised_at pg = None" and "nothing_found L (soup pg)"
  shows "get_job_details L today pg = record_of_nothing L today"
proof -
  from assms(2) have s: "select_text (soup pg) = (\<lambda>sel. None)" "img_src (soup pg) = None"
    "desc_text (soup pg) = None" "first_span (soup pg) = None" "data_spans (soup pg) = []"
    "career_span (soup pg) = None" "email_search L (full_text (soup pg)) = None" "og_url (soup pg) = None"
    by (simp_all add: nothing_found_def)
  show ?thesis
    unfolding get_job_details_def empty_record_HEADERS
    using assms(1) s
    by (simp add: run_blocks_def details_blocks_def HEADERS_def
        image_block_def description_block_def title_block_def type_block_def job_type_of_def
        salary_block_def salary_numbers_def location_block_def dates_block_def experience_block_def
        qualification_block_def career_block_def contact_block_def defaults_block_def
        extract_text_def first_where_def setitem_def item_def get_def Let_def record_of_nothing_def)
qed



lemma elempleo_card_Some: "card_text c = Some txt \<Longrightarrow> \<exists>job. elempleo_card L c = Some job"
  by (simp add: elempleo_card_def Let_def)

text \<open>
  C1, as the code has it. The record a field extractor returns has exactly the keys of
  its schema, no key missing and none added: \<open>get_job_details\<close> over \<open>HEADERS\<close>, for
  every page and wherever in its body an exception is caught; \<open>_init_job\<close> and the
  card records of \<open>scrape_elempleo\<close> over \<open>FIELDS\<close>; \<open>_parse_job_card\<close> and
  \<open>_extract_from_quick_view\<close> over their seven fields. When the navigation of
  \<open>get_job_details\<close> raises, every field is the empty string. When no exception is
  raised and every lookup finds nothing, the record is \<open>record_of_nothing\<close>: every
  extracted field is the empty string except \<open>_job_type\<close>, which is
  \<open>Tiempo completo\<close>; beside it stand the constants and the placeholder dates.
\<close>

theorem job_record_keys_are_schema:
  "set (keys (get_job_details L today pg)) = set HEADERS \<and>
   (raised_at pg = Some 0 \<longrightarrow>
      (\<forall>k\<in>set HEADERS. item (get_job_details L today pg) k = Str [])) \<and>
   (raised_at pg = None \<and> nothing_found L (soup pg) \<longrightarrow>
      get_job_details L today pg = record_of_nothing L today) \<and>
   set (keys (init_job site)) = set FIELDS \<and>
   (elempleo_card L c = Some job \<longrightarrow> set (keys job) = set FIELDS) \<and>
   set (keys (parse_job_card sc)) = set quickview_fieldnames \<and>
   set (keys (extract_from_quick_view L qp)) = set quickview_fieldnames"
  using get_job_details_keys[of L today pg] get_job_details_nav_raises[of pg L today]
    get_job_details_nothing[of pg L today] init_job_keys[of site] elempleo_card_keys[of L c job]
    parse_job_card_keys[of sc] extract_from_quick_view_keys[of L qp]
    empty_record_items[of _ HEADERS]
  by auto

lemma blank_nothing: "nothing_found ascii_lib blank_soup"
  by (simp add: nothing_found_def blank_soup_def ascii_lib_def)

theorem job_record_keys_are_schema_witness:
  "set (keys (get_job_details ascii_lib 739539 blank_page)) = set HEADERS \<and>
   get_job_details ascii_lib 739539 blank_page = record_of_nothing ascii_lib 739539 \<and>
   item (get_job_details ascii_lib 739539 unreachable_page) ''_job_type'' = Str [] \<and>
   set (keys (the (elempleo_card ascii_lib dev_card))) = set FIELDS"
proof -
  obtain job where j: "elempleo_card ascii_lib dev_card = Some job"
    using elempleo_card_Some[of dev_card _ ascii_lib] by (auto simp: dev_card_def)
  have t: "''_job_type'' \<in> set HEADERS" by (simp add: HEADERS_def)
  have h: "raised_at blank_page = None \<and> nothing_found ascii_lib (soup blank_page)"
    using blank_nothing by (simp add: blank_page_def)
  have r: "raised_at unreachable_page = Some 0" by (simp add: unreachable_page_def)
  note A = job_record_keys_are_schema[of ascii_lib 739539 blank_page "[]" dev_card job]
  note B = job_record_keys_are_schema[of ascii_lib 739539 unreachable_page "[]" dev_card job]
  have a1: "set (keys (get_job_details ascii_lib 739539 blank_page)) = set HEADERS"
    using A by blast
  have a2: "get_job_details ascii_lib 739539 blank_page = record_of_nothing ascii_lib 739539"
    using A h by blast
  have a3: "item (get_job_details ascii_lib 739539 unreachable_page) ''_job_type'' = Str []"
    using B r t by blast
  have a4: "set (keys (the (elempleo_card ascii_lib dev_card))) = set FIELDS"
    using A j by simp
  show ?thesis using a1 a2 a3 a4 by blast
qed

text \<open>
  On a page where every lookup fails, and no exception is raised, the job type is not
  the empty string.
\<close>

theorem job_type_default_counterexample:
  "raised_at blank_page = None \<and> nothing_found ascii_lib (soup blank_page) \<and>
   item (get_job_details ascii_lib 739539 blank_page) ''_job_type'' = Str (u ''Tiempo completo'') \<and>
   item (get_job_details ascii_lib 739539 blank_page) ''_job_type'' \<noteq> Str []"
proof -
  have "get_job_details ascii_lib 739539 blank_page = record_of_nothing ascii_lib 739539"
    using get_job_details_nothing[of blank_page ascii_lib 739539] blank_nothing
    by (simp add: blank_page_def)
  then show ?thesis
    using blank_nothing by (simp add: blank_page_def record_of_nothing_def item_def get_def u_def)
qed







































section \<open>From cards to rows\<close>















section \<open>Writing and reading back\<close>


lemma save_full_reads_back:
  assumes "jobs \<noteq> []" and "\<not> unwritable fs filename" and "filename \<noteq> []"
    and "\<forall>j\<in>set jobs. job_record CSV_FIELDS j"
  shows "\<exists>f. save_to_csv_full stamp fs jobs (Some filename) = (fs\<lparr>files := (files fs)(filename \<mapsto> f)\<rparr>, None)
             \<and> encoding f = ''utf-8-sig'' \<and> reads_back CSV_FIELDS jobs f"
proof -
  have "ensure_fields CSV_FIELDS j = j" if "j \<in> set jobs" for j
    using assms(4) that by (intro ensure_fields_same) (simp add: job_record_iff)
  then have "map (ensure_fields CSV_FIELDS) jobs = jobs" by (simp add: map_idI)
  then show ?thesis
    using assms(1,3) write_csv_reads_back[OF distinct_CSV_FIELDS assms(4,2), of "''utf-8-sig''"]
    by (simp add: save_to_csv_full_def)
qed

lemma save_simple_reads_back:
  assumes "jobs \<noteq> []" and "\<not> unwritable fs filename"
    and "\<forall>j\<in>set jobs. job_record quickview_fieldnames j"
  shows "\<exists>f. save_to_csv_simple fs jobs filename = (fs\<lparr>files := (files fs)(filename \<mapsto> f)\<rparr>, None)
             \<and> reads_back quickview_fieldnames jobs f"
  using assms(1) write_csv_reads_back[OF distinct_quickview assms(3,2), of "''utf-8''"]
  by (auto simp: save_to_csv_simple_def)

lemma save_quickview_reads_back:
  assumes "jobs \<noteq> []" and "\<not> unwritable fs filename"
    and "\<forall>j\<in>set jobs. job_record quickview_fieldnames j"
  shows "\<exists>f. save_to_csv_quickview fs jobs filename = (fs\<lparr>files := (files fs)(filename \<mapsto> f)\<rparr>, Some filename)
             \<and> encoding f = ''utf-8-sig'' \<and> reads_back quickview_fieldnames jobs f"
  using assms(1) write_csv_reads_back[OF distinct_quickview assms(3,2), of "''utf-8-sig''"]
  by (auto simp: save_to_csv_quickview_def)

lemma save_combined_reads_back:
  assumes "jobs \<noteq> []" and "\<not> unwritable fs filename"
    and "\<forall>j\<in>set jobs. job_record FIELDS j"
  shows "\<exists>f. save_to_csv_combined fs jobs filename = (fs\<lparr>files := (files fs)(filename \<mapsto> f)\<rparr>, Some filename)
             \<and> encoding f = ''utf-8-sig'' \<and> reads_back FIELDS jobs f"
  using assms(1) write_csv_reads_back[OF distinct_FIELDS assms(3,2), of "''utf-8-sig''"]
  by (auto simp: save_to_csv_combined_def)

text \<open>
  C8, as the code has it. For a non-empty list of job records over the writer's
  schema, a writable path and a file name that is not empty, \<open>save_to_csv\<close> writes a
  file that reads back as the records written: the header is the schema in its fixed
  order, there is one data row per record, in order, every row is as wide as the
  header, and each field reads back as the record's string. This holds for the writer
  of elempleo\_full\_scraper.py over \<open>CSV_FIELDS\<close>, for the simple and the quick-view
  writer over their seven fields, and for the combined writer over \<open>FIELDS\<close>. The
  writers of elempleo\_full\_scraper.py, elempleo\_scraper.py and combined\_scraper.py
  open the file with \<open>utf-8-sig\<close>, the encoding that puts the byte order mark first.
\<close>

theorem csv_round_trip:
  "jobs \<noteq> [] \<Longrightarrow> \<not> unwritable fs filename \<Longrightarrow> filename \<noteq> [] \<Longrightarrow>
   ((\<forall>j\<in>set jobs. job_record CSV_FIELDS j) \<longrightarrow>
      (\<exists>f. save_to_csv_full stamp fs jobs (Some filename)
              = (fs\<lparr>files := (files fs)(filename \<mapsto> f)\<rparr>, None) \<and>
           encoding f = ''utf-8-sig'' \<and> reads_back CSV_FIELDS jobs f)) \<and>
   ((\<forall>j\<in>set jobs. job_record quickview_fieldnames j) \<longrightarrow>
      (\<exists>f. save_to_csv_simple fs jobs filename
              = (fs\<lparr>files := (files fs)(filename \<mapsto> f)\<rparr>, None) \<and>
           reads_back quickview_fieldnames jobs f) \<and>
      (\<exists>f. save_to_csv_quickview fs jobs filename
              = (fs\<lparr>files := (files fs)(filename \<mapsto> f)\<rparr>, Some filename) \<and>
           encoding f = ''utf-8-sig'' \<and> reads_back quickview_fieldnames jobs f)) \<and>
   ((\<forall>j\<in>set jobs. job_record FIELDS j) \<longrightarrow>
      (\<exists>f. save_to_csv_combined fs jobs filename
              = (fs\<lparr>files := (files fs)(filename \<mapsto> f)\<rparr>, Some filename) \<and>
           encoding f = ''utf-8-sig'' \<and> reads_back FIELDS jobs f))"
  using save_full_reads_back[of jobs fs filename stamp] save_simple_reads_back[of jobs fs filename]
    save_quickview_reads_back[of jobs fs filename] save_combined_reads_back[of jobs fs filename]
  by blast

lemma sample_detail_record: "job_record CSV_FIELDS sample_detail"
proof -
  have c: "''category'' \<in> set CSV_FIELDS" by (simp add: CSV_FIELDS_def)
  have "set (keys sample_detail) = set CSV_FIELDS"
    using c by (simp add: sample_detail_def keys_setitem keys_empty_record insert_absorb)
  moreover have "\<exists>s. item sample_detail k = Str s" if "k \<in> set CSV_FIELDS" for k
    using that by (simp add: sample_detail_def item_setitem empty_record_items)
  ultimately show ?thesis by (simp add: job_record_iff)
qed

lemma sample_listing_record: "job_record quickview_fieldnames sample_listing"
proof -
  have c: "''title'' \<in> set quickview_fieldnames" by (simp add: quickview_fieldnames_def)
  have "set (keys sample_listing) = set quickview_fieldnames"
    using c by (simp add: sample_listing_def keys_setitem keys_empty_record insert_absorb)
  moreover have "\<exists>s. item sample_listing k = Str s" if "k \<in> set quickview_fieldnames" for k
    using that by (simp add: sample_listing_def item_setitem empty_record_items)
  ultimately show ?thesis by (simp add: job_record_iff)
qed

theorem csv_round_trip_witness:
  "reads_back CSV_FIELDS [sample_detail]
     (the (files (fst (save_to_csv_full ''20251015_120000'' empty_disk [sample_detail] (Some ''out.csv''))) ''out.csv'')) \<and>
   encoding (the (files (fst (save_to_csv_full ''20251015_120000'' empty_disk [sample_detail] (Some ''out.csv''))) ''out.csv''))
     = ''utf-8-sig'' \<and>
   map_of (read_rows (the (files (fst (save_to_csv_full ''20251015_120000'' empty_disk [sample_detail] (Some ''out.csv''))) ''out.csv'')) ! 0)
     (u ''category'') = Some (u ''Tecnologia, \"IT\"'')"
proof -
  have a: "[sample_detail] \<noteq> []" by simp
  have b: "\<not> unwritable empty_disk ''out.csv''" by (simp add: empty_disk_def)
  have c: "''out.csv'' \<noteq> []" by simp
  have d: "\<forall>j\<in>set [sample_detail]. job_record CSV_FIELDS j" using sample_detail_record by simp
  note A = csv_round_trip[OF a b c, of "''20251015_120000''"]
  from A d obtain f where f: "save_to_csv_full ''20251015_120000'' empty_disk [sample_detail] (Some ''out.csv'')
      = (empty_disk\<lparr>files := (files empty_disk)(''out.csv'' \<mapsto> f)\<rparr>, None)"
    "encoding f = ''utf-8-sig''" "reads_back CSV_FIELDS [sample_detail] f"
    by blast
  have g: "the (files (fst (save_to_csv_full ''20251015_120000'' empty_disk [sample_detail] (Some ''out.csv''))) ''out.csv'') = f"
    by (simp add: f(1))
  have cat: "''category'' \<in> set CSV_FIELDS" by (simp add: CSV_FIELDS_def)
  have "map_of (read_rows f ! 0) (u ''category'') = Some (text_of (item ([sample_detail] ! 0) ''category''))"
    using f(3) cat by (simp add: reads_back_iff)
  then have h: "map_of (read_rows f ! 0) (u ''category'') = Some (u ''Tecnologia, \"IT\"'')"
    by (simp add: sample_detail_def item_setitem)
  show ?thesis unfolding g using f(2,3) h by blast
qed

text \<open>
  An empty list writes no file, so there is no header row to read; and the simple
  writer opens its file with \<open>utf-8\<close>, which writes no byte order mark.
\<close>

theorem csv_round_trip_counterexample:
  "save_to_csv_full ''20251015_120000'' empty_disk [] (Some ''out.csv'') = (empty_disk, None) \<and>
   files empty_disk ''out.csv'' = None \<and>
   job_record quickview_fieldnames sample_listing \<and>
   encoding (the (files (fst (save_to_csv_simple empty_disk [sample_listing] ''out.csv'')) ''out.csv'')) = ''utf-8''"
proof -
  have k: "\<forall>r\<in>set [sample_listing]. set (keys r) \<subseteq> set quickview_fieldnames"
    using sample_listing_record by (simp add: job_record_iff)
  have b: "\<not> unwritable empty_disk ''out.csv''" by (simp add: empty_disk_def)
  have "encoding (the (files (fst (save_to_csv_simple empty_disk [sample_listing] ''out.csv'')) ''out.csv'')) = ''utf-8''"
    using write_csv_ok[OF k b, of "''utf-8''"] by (simp add: save_to_csv_simple_def)
  then show ?thesis
    using sample_listing_record by (simp add: save_to_csv_full_def empty_disk_def)
qed

end
